theory Spec2Isabelle
  imports Main "HOL-Library.AList"
begin

section \<open>Python strings\<close>

text \<open>
  A Python \<open>str\<close> is modelled as a \<open>string\<close>, a list of 8-bit characters: the
  character with code \<open>n\<close> stands for the code point \<open>n\<close>, so the strings of the
  embedding are the Python strings over the code points below 256 (ASCII and the
  Latin-1 supplement). On these the functions below compute what the Python
  methods of the same names compute. Strings with code points from 256 on are
  outside the embedding.
\<close>

text \<open>
  The cased letters below 256 that \<open>str.lower\<close> changes, and what it changes them
  to: the ASCII capitals, and the Latin-1 capitals 0xC0 to 0xDE except the
  multiplication sign 0xD7, each moved up by 0x20.
\<close>

definition upper_letters :: string where
  "upper_letters = ''ABCDEFGHIJKLMNOPQRSTUVWXYZ''
     @ [CHR 0xC0, CHR 0xC1, CHR 0xC2, CHR 0xC3, CHR 0xC4, CHR 0xC5, CHR 0xC6, CHR 0xC7,
        CHR 0xC8, CHR 0xC9, CHR 0xCA, CHR 0xCB, CHR 0xCC, CHR 0xCD, CHR 0xCE, CHR 0xCF,
        CHR 0xD0, CHR 0xD1, CHR 0xD2, CHR 0xD3, CHR 0xD4, CHR 0xD5, CHR 0xD6,
        CHR 0xD8, CHR 0xD9, CHR 0xDA, CHR 0xDB, CHR 0xDC, CHR 0xDD, CHR 0xDE]"

definition lower_letters :: string where
  "lower_letters = ''abcdefghijklmnopqrstuvwxyz''
     @ [CHR 0xE0, CHR 0xE1, CHR 0xE2, CHR 0xE3, CHR 0xE4, CHR 0xE5, CHR 0xE6, CHR 0xE7,
        CHR 0xE8, CHR 0xE9, CHR 0xEA, CHR 0xEB, CHR 0xEC, CHR 0xED, CHR 0xEE, CHR 0xEF,
        CHR 0xF0, CHR 0xF1, CHR 0xF2, CHR 0xF3, CHR 0xF4, CHR 0xF5, CHR 0xF6,
        CHR 0xF8, CHR 0xF9, CHR 0xFA, CHR 0xFB, CHR 0xFC, CHR 0xFD, CHR 0xFE]"

definition lower_char :: "char \<Rightarrow> char" where
  "lower_char c = (case map_of (zip upper_letters lower_letters) c of Some d \<Rightarrow> d | None \<Rightarrow> c)"

text \<open>\<open>s.lower()\<close>\<close>

definition lower :: "string \<Rightarrow> string" where
  "lower s = map lower_char s"

text \<open>\<open>s.startswith(p)\<close>\<close>

fun startswith :: "string \<Rightarrow> string \<Rightarrow> bool" where
  "startswith s [] = True"
| "startswith [] (p # ps) = False"
| "startswith (c # cs) (p # ps) = (c = p \<and> startswith cs ps)"

text \<open>\<open>t in s\<close> for two strings: \<open>t\<close> occurs in \<open>s\<close> as a contiguous substring.\<close>

fun str_in :: "string \<Rightarrow> string \<Rightarrow> bool" where
  "str_in t [] = (t = [])"
| "str_in t (c # cs) = (startswith (c # cs) t \<or> str_in t cs)"

text \<open>\<open>any(term in query for term in terms)\<close>\<close>

definition any_in :: "string list \<Rightarrow> string \<Rightarrow> bool" where
  "any_in terms query = list_ex (\<lambda>t. str_in t query) terms"

text \<open>
  The characters below 256 that \<open>str.isspace\<close> accepts: tab, line feed, vertical
  tab, form feed, carriage return, the four separators 0x1C to 0x1F, the space,
  the next-line control 0x85 and the no-break space 0xA0.
\<close>

definition is_space :: "char \<Rightarrow> bool" where
  "is_space c = (c \<in> set [CHR 0x09, CHR 0x0A, CHR 0x0B, CHR 0x0C, CHR 0x0D,
                            CHR 0x1C, CHR 0x1D, CHR 0x1E, CHR 0x1F, CHR '' '',
                            CHR 0x85, CHR 0xA0])"

text \<open>\<open>s.strip()\<close>\<close>

definition strip :: "string \<Rightarrow> string" where
  "strip s = rev (dropWhile is_space (rev (dropWhile is_space s)))"

text \<open>
  The first occurrence of a separator: the text before it and the text after it.
\<close>

fun partition_at :: "string \<Rightarrow> string \<Rightarrow> (string \<times> string) option" where
  "partition_at sep [] = (if sep = [] then Some ([], []) else None)"
| "partition_at sep (c # cs) =
     (if startswith (c # cs) sep then Some ([], drop (length sep) (c # cs))
      else (case partition_at sep cs of
              None \<Rightarrow> None
            | Some (before, after) \<Rightarrow> Some (c # before, after)))"

text \<open>
  \<open>s.split(sep, 1)\<close> for a non-empty separator (the program's only separator is
  the literal \<open>"of "\<close>): the string itself when the separator does not occur, the
  two sides of its first occurrence otherwise.
\<close>

definition split1 :: "string \<Rightarrow> string \<Rightarrow> string list" where
  "split1 s sep = (case partition_at sep s of None \<Rightarrow> [s] | Some (before, after) \<Rightarrow> [before, after])"

text \<open>
  \<open>s.replace(old, new)\<close>: every occurrence of \<open>old\<close>, found from the left and not
  overlapping, becomes \<open>new\<close>. For an empty \<open>old\<close> Python puts \<open>new\<close> before every
  character and at the end.
\<close>

function replace_from :: "string \<Rightarrow> string \<Rightarrow> string \<Rightarrow> string" where
  "replace_from old new [] = []"
| "replace_from old new (c # cs) =
     (if old \<noteq> [] \<and> startswith (c # cs) old
      then new @ replace_from old new (drop (length old) (c # cs))
      else c # replace_from old new cs)"
  by pat_completeness auto
termination
  by (relation "measure (\<lambda>(old, new, s). length s)") (auto simp: Suc_le_eq)

definition replace :: "string \<Rightarrow> string \<Rightarrow> string \<Rightarrow> string" where
  "replace s old new =
     (if old = [] then new @ concat (map (\<lambda>c. c # new) s) else replace_from old new s)"

section \<open>Python values\<close>

text \<open>
  The values that cross the program's interfaces are what \<open>json.loads\<close> produces:
  \<open>None\<close>, booleans, integers, strings, lists and dictionaries with string keys.
  A dictionary is an association list in insertion order with one entry per key.
  Floating-point numbers are outside the embedding, and so is the error the
  interpreter raises when it prints an integer of more than 4300 digits (neither
  \<open>json.loads\<close> nor \<open>int\<close> produces one).
\<close>

datatype pyval =
    PNone
  | PBool bool
  | PInt int
  | PStr string
  | PList "pyval list"
  | PDict "(string \<times> pyval) list"

type_synonym pydict = "(string \<times> pyval) list"

text \<open>Truth value of an object, as \<open>if x:\<close> and \<open>not x\<close> test it.\<close>

fun truthy :: "pyval \<Rightarrow> bool" where
  "truthy PNone = False"
| "truthy (PBool b) = b"
| "truthy (PInt i) = (i \<noteq> 0)"
| "truthy (PStr s) = (s \<noteq> [])"
| "truthy (PList xs) = (xs \<noteq> [])"
| "truthy (PDict d) = (d \<noteq> [])"

fun is_dict :: "pyval \<Rightarrow> bool" where
  "is_dict (PDict d) = True"
| "is_dict v = False"

text \<open>\<open>d.get(k)\<close> and \<open>d.get(k, default)\<close> on a dictionary.\<close>

definition dict_get :: "pydict \<Rightarrow> string \<Rightarrow> pyval \<Rightarrow> pyval" where
  "dict_get d k dflt = (case map_of d k of Some v \<Rightarrow> v | None \<Rightarrow> dflt)"

text \<open>\<open>d[k] = v\<close>: an existing key keeps its place, a new key goes last.\<close>

definition dict_set :: "pydict \<Rightarrow> string \<Rightarrow> pyval \<Rightarrow> pydict" where
  "dict_set d k v = AList.update k v d"

section \<open>The deterministic classifier (src/src/cli.py)\<close>

definition repo_terms :: "string list" where
  "repo_terms = [''repo'', ''repos'', ''repositories'', ''repository'']"

definition action_terms :: "string list" where
  "action_terms = [''list'', ''show'', ''get'', ''find'', ''display'', ''tell'']"

text \<open>\<open>GitXRCLI.is_list_repos_query\<close>\<close>

definition is_list_repos_query :: "string \<Rightarrow> bool" where
  "is_list_repos_query query0 =
     (let query = lower query0;
          has_repo_term = any_in repo_terms query;
          has_action_term = any_in action_terms query;
          has_of_pattern = str_in ''of '' query
      in (has_repo_term \<and> has_action_term) \<or> (has_repo_term \<and> has_of_pattern))"

text \<open>
  \<open>GitXRCLI.fallback_intent_detection\<close>. The local \<open>username\<close> is \<open>None\<close> or a
  string; \<open>if username:\<close> holds for a non-empty string.
\<close>

definition extract_username :: "string \<Rightarrow> string option" where
  "extract_username query =
     (if str_in ''of '' query then
        (let parts = split1 query ''of ''
         in if length parts > 1 then Some (strip (parts ! 1)) else None)
      else None)"

definition fallback_intent_detection :: "string \<Rightarrow> pyval" where
  "fallback_intent_detection query0 =
     (let query = lower query0;
          username = extract_username query
      in if any_in [''list'', ''show'', ''get'', ''find'', ''display'', ''tell''] query
            \<and> any_in repo_terms query then
           (if username \<noteq> None \<and> username \<noteq> Some [] then
              PDict [(''intent'', PStr ''list_user_repositories''),
                     (''parameters'', PDict [(''username'', PStr (the username))])]
            else
              PDict [(''intent'', PStr ''list_user_repositories''),
                     (''parameters'', PDict [])])
         else if any_in [''search'', ''find''] query \<and> any_in repo_terms query then
           PDict [(''intent'', PStr ''search_repositories''),
                  (''parameters'',
                   PDict [(''query'',
                           PStr (strip (replace (replace (replace (replace query
                                   ''search'' '''') ''find'' '''') ''repos'' '''')
                                   ''repositories'' '''')))])]
         else
           PDict [(''intent'', PStr ''unknown''), (''parameters'', PDict [])])"

section \<open>Exceptions, type names and conversions\<close>

text \<open>
  An exception is its class name and its message, the text \<open>str(e)\<close> returns.
  A computation that may raise returns \<open>Inl\<close> of the exception.
\<close>

datatype pyexc = PyExc (exc_class: string) (exc_str: string)

text \<open>The single quote, as a one-character string.\<close>

definition sq :: string where
  "sq = [CHR 0x27]"

text \<open>\<open>type(v).__name__\<close>\<close>

fun py_type_name :: "pyval \<Rightarrow> string" where
  "py_type_name PNone = ''NoneType''"
| "py_type_name (PBool b) = ''bool''"
| "py_type_name (PInt i) = ''int''"
| "py_type_name (PStr s) = ''str''"
| "py_type_name (PList xs) = ''list''"
| "py_type_name (PDict d) = ''dict''"

text \<open>\<open>str(type(v))\<close>, as an f-string prints \<open>{type(v)}\<close>.\<close>

definition py_type_str :: "pyval \<Rightarrow> string" where
  "py_type_str v = ''<class '' @ sq @ py_type_name v @ sq @ ''>''"

text \<open>Decimal digits of a natural number and of an integer, as \<open>str\<close> prints them.\<close>

definition digit_char :: "nat \<Rightarrow> char" where
  "digit_char n = ''0123456789abcdef'' ! n"

function nat_str :: "nat \<Rightarrow> string" where
  "nat_str n = (if n < 10 then [digit_char n] else nat_str (n div 10) @ [digit_char (n mod 10)])"
  by pat_completeness auto
termination
  by (relation "measure (\<lambda>n. n)") auto

declare nat_str.simps [simp del]

definition int_str :: "int \<Rightarrow> string" where
  "int_str i = (if i < 0 then CHR ''-'' # nat_str (nat (- i)) else nat_str (nat i))"

text \<open>
  \<open>repr\<close> of a string: single quotes unless the string holds a single quote and
  no double quote; the backslash, the chosen quote, tab, line feed and carriage
  return are escaped, and the other characters that are not printable (the
  controls 0x00 to 0x1F and 0x7F to 0x9F, the no-break space 0xA0 and the soft
  hyphen 0xAD) are written in hexadecimal.
\<close>

definition printable :: "char \<Rightarrow> bool" where
  "printable c = (let n = (of_char c :: nat) in 32 \<le> n \<and> \<not> (127 \<le> n \<and> n \<le> 160) \<and> n \<noteq> 173)"

definition repr_char :: "char \<Rightarrow> char \<Rightarrow> string" where
  "repr_char quote c =
     (if c = CHR 0x5C then [CHR 0x5C, CHR 0x5C]
      else if c = quote then [CHR 0x5C, quote]
      else if c = CHR 0x09 then [CHR 0x5C, CHR ''t'']
      else if c = CHR 0x0A then [CHR 0x5C, CHR ''n'']
      else if c = CHR 0x0D then [CHR 0x5C, CHR ''r'']
      else if \<not> printable c then
        [CHR 0x5C, CHR ''x'', digit_char ((of_char c :: nat) div 16),
         digit_char ((of_char c :: nat) mod 16)]
      else [c])"

definition str_repr :: "string \<Rightarrow> string" where
  "str_repr s =
     (let quote = (if CHR 0x27 \<in> set s \<and> CHR 0x22 \<notin> set s then CHR 0x22 else CHR 0x27)
      in quote # concat (map (repr_char quote) s) @ [quote])"

text \<open>\<open>repr(v)\<close> and \<open>str(v)\<close>; an f-string field \<open>{v}\<close> prints \<open>str(v)\<close>.\<close>

fun py_repr :: "pyval \<Rightarrow> string"
  and py_repr_list :: "pyval list \<Rightarrow> string"
  and py_repr_items :: "(string \<times> pyval) list \<Rightarrow> string" where
  "py_repr PNone = ''None''"
| "py_repr (PBool b) = (if b then ''True'' else ''False'')"
| "py_repr (PInt i) = int_str i"
| "py_repr (PStr s) = str_repr s"
| "py_repr (PList xs) = ''['' @ py_repr_list xs @ '']''"
| "py_repr (PDict d) = ''{'' @ py_repr_items d @ ''}''"
| "py_repr_list [] = []"
| "py_repr_list [x] = py_repr x"
| "py_repr_list (x # y # ys) = py_repr x @ '', '' @ py_repr_list (y # ys)"
| "py_repr_items [] = []"
| "py_repr_items [(k, v)] = str_repr k @ '': '' @ py_repr v"
| "py_repr_items ((k, v) # kv # kvs) =
     str_repr k @ '': '' @ py_repr v @ '', '' @ py_repr_items (kv # kvs)"

definition py_str :: "pyval \<Rightarrow> string" where
  "py_str v = (case v of PStr s \<Rightarrow> s | _ \<Rightarrow> py_repr v)"

text \<open>
  \<open>int(s)\<close> on a string. Whitespace around the literal is skipped; for this
  conversion the whitespace characters are the ASCII ones (tab, line feed,
  vertical tab, form feed, carriage return, space) and, below 256, the two beyond
  ASCII (0x85 and 0xA0), but not the separators 0x1C to 0x1F. The literal is an
  optional sign followed by decimal digits, where single underscores may stand
  between digits; below 256 the decimal digits are \<open>0\<close> to \<open>9\<close>.
\<close>

definition int_space :: "char \<Rightarrow> bool" where
  "int_space c = (c \<in> set [CHR 0x09, CHR 0x0A, CHR 0x0B, CHR 0x0C, CHR 0x0D, CHR '' '',
                             CHR 0x85, CHR 0xA0])"

definition is_digit :: "char \<Rightarrow> bool" where
  "is_digit c = (c \<in> set ''0123456789'')"

definition digit_val :: "char \<Rightarrow> nat" where
  "digit_val c = (case map_of (zip ''0123456789'' [0, 1, 2, 3, 4, 5, 6, 7, 8, 9]) c of
                    Some n \<Rightarrow> n | None \<Rightarrow> 0)"

text \<open>The number a string of digits and underscores denotes.\<close>

definition digits_value :: "string \<Rightarrow> nat" where
  "digits_value ds = foldl (\<lambda>acc c. 10 * acc + digit_val c) 0 (filter is_digit ds)"

text \<open>
  The underscores of a run of digits and underscores are well placed: none at the
  start, none at the end, no two in a row.
\<close>

fun underscores_ok :: "string \<Rightarrow> bool" where
  "underscores_ok [] = True"
| "underscores_ok [c] = (c \<noteq> CHR ''_'')"
| "underscores_ok (c # d # ds) =
     (c \<noteq> CHR ''_'' \<and> (if d = CHR ''_'' then ds \<noteq> [] \<and> underscores_ok ds
                        else underscores_ok (d # ds)))"

text \<open>
  The interpreter refuses to convert a literal of more than 4300 digits (its
  default limit on integer string conversion).
\<close>

definition int_max_str_digits :: nat where
  "int_max_str_digits = 4300"

definition invalid_literal :: "string \<Rightarrow> pyexc" where
  "invalid_literal s =
     PyExc ''ValueError'' (''invalid literal for int() with base 10: '' @ take 200 (str_repr s))"

text \<open>
  The conversion reads, after the leading whitespace and the sign, the longest
  run of digits and underscores; it rejects misplaced underscores, then a run with
  too many digits, then an empty run or anything but whitespace after the run.
\<close>

definition int_of_str :: "string \<Rightarrow> pyexc + int" where
  "int_of_str s =
     (let t = dropWhile int_space s;
          negative = (t \<noteq> [] \<and> hd t = CHR ''-'');
          body = (if t \<noteq> [] \<and> (hd t = CHR ''-'' \<or> hd t = CHR ''+'') then tl t else t);
          run = takeWhile (\<lambda>c. is_digit c \<or> c = CHR ''_'') body;
          rest = dropWhile (\<lambda>c. is_digit c \<or> c = CHR ''_'') body;
          digits = length (filter is_digit run)
      in if \<not> underscores_ok run then Inl (invalid_literal s)
         else if int_max_str_digits < digits then
           Inl (PyExc ''ValueError''
                  (''Exceeds the limit (4300 digits) for integer string conversion: value has ''
                   @ nat_str digits @ '' digits; use sys.set_int_max_str_digits() ''
                   @ ''to increase the limit''))
         else if run = [] \<or> \<not> list_all int_space rest then Inl (invalid_literal s)
         else Inr (if negative then - int (digits_value run) else int (digits_value run)))"

text \<open>
  \<open>int(v)\<close>: the integer itself, 0 or 1 for a boolean, the conversion above for
  a string, a \<open>TypeError\<close> for \<open>None\<close>, a list or a dictionary.
\<close>

fun py_int :: "pyval \<Rightarrow> pyexc + int" where
  "py_int (PInt i) = Inr i"
| "py_int (PBool b) = Inr (if b then 1 else 0)"
| "py_int (PStr s) = int_of_str s"
| "py_int v =
     Inl (PyExc ''TypeError''
       (''int() argument must be a string, a bytes-like object or a real number, not ''
        @ sq @ py_type_name v @ sq))"

text \<open>
  \<open>v.get(k, default)\<close> on an arbitrary object: only a dictionary has the method.
\<close>

definition py_get :: "pyval \<Rightarrow> string \<Rightarrow> pyval \<Rightarrow> pyexc + pyval" where
  "py_get v k dflt =
     (case v of
        PDict d \<Rightarrow> Inr (dict_get d k dflt)
      | _ \<Rightarrow> Inl (PyExc ''AttributeError''
               (sq @ py_type_name v @ sq @ '' object has no attribute '' @ sq @ ''get'' @ sq)))"

text \<open>\<open>v[k]\<close> for a string key \<open>k\<close>.\<close>

definition py_getitem :: "pyval \<Rightarrow> string \<Rightarrow> pyexc + pyval" where
  "py_getitem v k =
     (case v of
        PDict d \<Rightarrow> (case map_of d k of
                      Some x \<Rightarrow> Inr x
                    | None \<Rightarrow> Inl (PyExc ''KeyError'' (str_repr k)))
      | PList xs \<Rightarrow> Inl (PyExc ''TypeError'' ''list indices must be integers or slices, not str'')
      | PStr s \<Rightarrow> Inl (PyExc ''TypeError''
                   (''string indices must be integers, not '' @ sq @ ''str'' @ sq))
      | _ \<Rightarrow> Inl (PyExc ''TypeError''
               (sq @ py_type_name v @ sq @ '' object is not subscriptable'')))"

text \<open>
  The items a \<open>for\<close> loop visits: the elements of a list, the keys of a
  dictionary, the characters of a string; other values are not iterable.
\<close>

definition py_iter :: "pyval \<Rightarrow> pyexc + pyval list" where
  "py_iter v =
     (case v of
        PList xs \<Rightarrow> Inr xs
      | PDict d \<Rightarrow> Inr (map (\<lambda>kv. PStr (fst kv)) d)
      | PStr s \<Rightarrow> Inr (map (\<lambda>c. PStr [c]) s)
      | _ \<Rightarrow> Inl (PyExc ''TypeError''
               (sq @ py_type_name v @ sq @ '' object is not iterable'')))"

section \<open>Session state and effects\<close>

text \<open>
  The \<open>Console\<close> object of rich reads the text it prints as markup. Two parts
  of that reading belong to the style grammar of rich and are parameters here:
  the normal form of a style name (\<open>Style.normalize\<close>), and the message of the
  error rich reports, if any, when it evaluates the parameters of a closed
  \<open>@\<close> tag.
\<close>

record rich_console =
  style_normalize :: "string \<Rightarrow> string"
  handler_error :: "string \<Rightarrow> string option"

text \<open>
  What the program reads and writes besides its arguments: the console of the
  \<open>GitXRCLI\<close> object, the text printed on it, the lines the user will still
  type, the conversation history of the object, the requests sent to the GitHub
  API and to the language model, and the store of objects. An object's address is
  its index in the store; a new object goes to the end of it.
\<close>

record session =
  console :: rich_console
  console_out :: "string list"
  console_in :: "string list"
  conversation_history :: "pyval list"
  net_log :: "(string \<times> pydict option) list"
  llm_log :: "(string \<times> pyval list) list"
  heap :: "pyval list"

text \<open>
  An action runs in a session and either raises or returns; the session it leaves
  behind keeps every effect that happened before the exception.
\<close>

type_synonym 'a action = "session \<Rightarrow> (pyexc + 'a) \<times> session"

definition returnM :: "'a \<Rightarrow> 'a action" where
  "returnM x s = (Inr x, s)"

definition liftE :: "pyexc + 'a \<Rightarrow> 'a action" where
  "liftE r s = (r, s)"

definition bindM :: "'a action \<Rightarrow> ('a \<Rightarrow> 'b action) \<Rightarrow> 'b action" where
  "bindM m f s = (case m s of (Inl e, s') \<Rightarrow> (Inl e, s') | (Inr x, s') \<Rightarrow> f x s')"

text \<open>\<open>try: m except Exception as e: h e\<close>\<close>

definition catchM :: "'a action \<Rightarrow> (pyexc \<Rightarrow> 'a action) \<Rightarrow> 'a action" where
  "catchM m h s = (case m s of (Inl e, s') \<Rightarrow> h e s' | (Inr x, s') \<Rightarrow> (Inr x, s'))"

text \<open>\<open>self.conversation_history.append({"role": role, "content": content})\<close>\<close>

definition history_append :: "string \<Rightarrow> string \<Rightarrow> unit action" where
  "history_append role content s =
     (Inr (), s\<lparr>conversation_history := conversation_history s
                  @ [PDict [(''role'', PStr role), (''content'', PStr content)]]\<rparr>)"

text \<open>
  Objects in the store: a new object, the entries of a dictionary object, and the
  assignment \<open>obj[k] = v\<close>, which writes into the object at that address.
\<close>

definition alloc :: "pyval \<Rightarrow> nat action" where
  "alloc v s = (Inr (length (heap s)), s\<lparr>heap := heap s @ [v]\<rparr>)"

definition items_of :: "pyval \<Rightarrow> pydict" where
  "items_of v = (case v of PDict d \<Rightarrow> d | _ \<Rightarrow> [])"

definition store_item :: "nat \<Rightarrow> string \<Rightarrow> pyval \<Rightarrow> unit action" where
  "store_item a k v s =
     (Inr (), s\<lparr>heap := (heap s)[a := PDict (dict_set (items_of (heap s ! a)) k v)]\<rparr>)"

section \<open>External collaborators\<close>

text \<open>
  The parts of the program that leave the process or depend on pandas are
  parameters of the embedding: the HTTP response to a GET request (the parsed JSON
  body, or the exception \<open>requests\<close> raises for a transport error or a status
  that is not 2xx), the result of \<open>LLMClient.process_query\<close> (which calls the
  completion service and \<^verbatim>\<open>json.loads\<close>: it returns the parsed value, or the
  record with intent \<open>error\<close> when parsing fails, or raises what the service
  raises), the \<open>DataProcessor\<close> conversions to a pandas frame of type \<open>'df\<close>,
  and the text \<open>Visualizer.show_console_table\<close> prints, or the exception it
  raises.
\<close>

record 'df world =
  http_get :: "string \<Rightarrow> pydict option \<Rightarrow> pyexc + pyval"
  llm_process_query :: "string \<Rightarrow> pyval list \<Rightarrow> pyexc + pyval"
  contributors_to_dataframe :: "pyval \<Rightarrow> pyexc + 'df"
  commits_to_dataframe :: "pyval \<Rightarrow> pyexc + 'df"
  pull_requests_to_dataframe :: "pyval \<Rightarrow> pyexc + 'df"
  search_results_to_dataframe :: "pyval \<Rightarrow> string \<Rightarrow> pyexc + 'df"
  DataFrame :: "pyval \<Rightarrow> pyexc + 'df"
  show_console_table :: "'df \<Rightarrow> string \<Rightarrow> pyexc + string"

section \<open>The console (rich)\<close>

text \<open>
  \<open>Console.print\<close> reads its argument as console markup before it writes
  anything, and raises \<open>MarkupError\<close> for a closing tag that closes nothing. A
  tag is an opening bracket, one of the letters \<open>a\<close> to \<open>z\<close>, the hash sign,
  the slash and the at sign, then any characters but an opening bracket, up to the
  first closing bracket after them (the tag pattern of \<open>rich.markup\<close>).
\<close>

definition tag_start_char :: "char \<Rightarrow> bool" where
  "tag_start_char c = (c \<in> set ''abcdefghijklmnopqrstuvwxyz#/@'')"

text \<open>
  The text of the tag whose opening bracket stands just before the given
  characters, if a tag opens there.
\<close>

fun tag_rest :: "string \<Rightarrow> string option" where
  "tag_rest [] = None"
| "tag_rest (c # cs) =
     (if c = CHR 0x5D then Some []
      else if c = CHR 0x5B then None
      else map_option (\<lambda>t. c # t) (tag_rest cs))"

definition tag_at :: "string \<Rightarrow> string option" where
  "tag_at cs = (case cs of [] \<Rightarrow> None | c # rest \<Rightarrow> if tag_start_char c then tag_rest cs else None)"

text \<open>
  A tag is its name and its parameters: the text before the first equals sign
  and, when there is one, the text after it (\<open>tag_text.partition("=")\<close>).
\<close>

type_synonym tag = "string \<times> string option"

definition tag_of :: "string \<Rightarrow> tag" where
  "tag_of tag_text =
     (case partition_at ''='' tag_text of
        None \<Rightarrow> (tag_text, None)
      | Some (name, parameters) \<Rightarrow> (name, Some parameters))"

text \<open>\<open>Tag.markup\<close>\<close>

definition tag_markup :: "tag \<Rightarrow> string" where
  "tag_markup t =
     (case snd t of
        None \<Rightarrow> ''['' @ fst t @ '']''
      | Some parameters \<Rightarrow> ''['' @ fst t @ ''='' @ parameters @ '']'')"

text \<open>
  \<open>pop_style\<close>: the open tags without the innermost one of the given name, and
  that tag; \<open>None\<close> when no open tag has the name. The stack of open tags has its
  innermost tag first.
\<close>

fun pop_style :: "string \<Rightarrow> tag list \<Rightarrow> (tag \<times> tag list) option" where
  "pop_style style_name [] = None"
| "pop_style style_name (t # ts) =
     (if fst t = style_name then Some (t, ts)
      else map_option (\<lambda>(found, others). (found, t # others)) (pop_style style_name ts))"

text \<open>
  What \<open>render\<close> does with a tag that is not escaped: an opening tag is pushed
  under its normalized name; a closing tag pops the tag it names (the innermost
  one when it names none) or raises, and the parameters of a popped \<open>@\<close> tag
  are evaluated, which may raise too.
\<close>

definition markup_exc :: "string \<Rightarrow> pyexc" where
  "markup_exc msg = PyExc ''MarkupError'' msg"

definition closed_tag :: "rich_console \<Rightarrow> tag \<Rightarrow> tag list \<Rightarrow> pyexc + tag list" where
  "closed_tag C open_tag style_stack =
     (if startswith (fst open_tag) ''@'' then
        (case snd open_tag of
           None \<Rightarrow> Inr style_stack
         | Some parameters \<Rightarrow>
             if parameters = [] then Inr style_stack
             else (case handler_error C parameters of
                     None \<Rightarrow> Inr style_stack
                   | Some msg \<Rightarrow> Inl (markup_exc msg)))
      else Inr style_stack)"

definition apply_tag :: "rich_console \<Rightarrow> nat \<Rightarrow> string \<Rightarrow> tag list \<Rightarrow> pyexc + tag list" where
  "apply_tag C position tag_text style_stack =
     (let t = tag_of tag_text in
      if startswith (fst t) ''/'' then
        (let style_name = strip (tl (fst t)) in
         if style_name \<noteq> [] then
           (case pop_style (style_normalize C style_name) style_stack of
              None \<Rightarrow> Inl (markup_exc (''closing tag '' @ sq @ tag_markup t @ sq @ '' at position ''
                                       @ nat_str position @ '' doesn'' @ sq
                                       @ ''t match any open tag''))
            | Some (open_tag, others) \<Rightarrow> closed_tag C open_tag others)
         else
           (case style_stack of
              [] \<Rightarrow> Inl (markup_exc (''closing tag '' @ sq @ ''[/]'' @ sq @ '' at position ''
                                     @ nat_str position @ '' has nothing to close''))
            | open_tag # others \<Rightarrow> closed_tag C open_tag others))
      else Inr ((style_normalize C (fst t), snd t) # style_stack))"

text \<open>
  The scan of a markup string from the left. \<open>position\<close> is the index of the
  next character, \<open>skip\<close> the number of characters left of the tag just read,
  \<open>escapes\<close> the number of backslashes that stand directly before the next
  character. A tag after an odd number of backslashes is escaped and stays text.
  The result is the exception the scan raises, if any.
\<close>

fun scan_markup :: "rich_console \<Rightarrow> nat \<Rightarrow> nat \<Rightarrow> nat \<Rightarrow> tag list \<Rightarrow> string \<Rightarrow> pyexc option" where
  "scan_markup C position skip escapes style_stack [] = None"
| "scan_markup C position skip escapes style_stack (c # cs) =
     (if 0 < skip then scan_markup C (position + 1) (skip - 1) 0 style_stack cs
      else if c = CHR 0x5C then scan_markup C (position + 1) 0 (escapes + 1) style_stack cs
      else if c = CHR 0x5B then
        (case tag_at cs of
           None \<Rightarrow> scan_markup C (position + 1) 0 0 style_stack cs
         | Some tag_text \<Rightarrow>
             if odd escapes then scan_markup C (position + 1) (length tag_text + 1) 0 style_stack cs
             else (case apply_tag C position tag_text style_stack of
                     Inl e \<Rightarrow> Some e
                   | Inr style_stack' \<Rightarrow>
                       scan_markup C (position + 1) (length tag_text + 1) 0 style_stack' cs))
      else scan_markup C (position + 1) 0 0 style_stack cs)"

definition markup_error :: "rich_console \<Rightarrow> string \<Rightarrow> pyexc option" where
  "markup_error C markup = scan_markup C 0 0 0 [] markup"

text \<open>
  \<open>console.print(msg)\<close>: raises what the markup of \<open>msg\<close> raises, before
  anything is written; otherwise the argument is recorded as it is passed, markup
  tags included. (Writing to the terminal itself is taken to succeed.)
\<close>

definition console_print :: "string \<Rightarrow> unit action" where
  "console_print msg s =
     (case markup_error (console s) msg of
        Some e \<Rightarrow> (Inl e, s)
      | None \<Rightarrow> (Inr (), s\<lparr>console_out := console_out s @ [msg]\<rparr>))"

text \<open>
  \<open>console.input(prompt)\<close>: a non-empty prompt is printed as \<open>console.print\<close>
  prints, then the next line typed is returned; at the end of the input
  \<open>EOFError\<close> is raised.
\<close>

definition console_input :: "string \<Rightarrow> string action" where
  "console_input prompt =
     bindM (if prompt = [] then returnM () else console_print prompt) (\<lambda>_ s.
       case console_in s of
         [] \<Rightarrow> (Inl (PyExc ''EOFError'' ''EOF when reading a line''), s)
       | line # rest \<Rightarrow> (Inr line, s\<lparr>console_in := rest\<rparr>))"

text \<open>Output that has been rendered already is written as it is.\<close>

definition console_write :: "string \<Rightarrow> unit action" where
  "console_write rendered s = (Inr (), s\<lparr>console_out := console_out s @ [rendered]\<rparr>)"

section \<open>The GitHub client (src/src/github_api.py)\<close>

text \<open>\<open>GitHubAPIClient._get\<close>: one GET request, recorded in the session.\<close>

definition GitHubAPIClient_get :: "'df world \<Rightarrow> string \<Rightarrow> pydict option \<Rightarrow> pyval action" where
  "GitHubAPIClient_get W endpoint params s =
     (http_get W endpoint params, s\<lparr>net_log := net_log s @ [(endpoint, params)]\<rparr>)"

definition get_repository_contributors :: "'df world \<Rightarrow> pyval \<Rightarrow> pyval \<Rightarrow> pyval action" where
  "get_repository_contributors W owner repo =
     GitHubAPIClient_get W (''/repos/'' @ py_str owner @ ''/'' @ py_str repo @ ''/contributors'') None"

definition get_commit_history :: "'df world \<Rightarrow> pyval \<Rightarrow> pyval \<Rightarrow> pyval \<Rightarrow> int \<Rightarrow> pyval action" where
  "get_commit_history W owner repo branch count =
     GitHubAPIClient_get W (''/repos/'' @ py_str owner @ ''/'' @ py_str repo @ ''/commits'')
       (Some [(''sha'', branch), (''per_page'', PInt count)])"

definition search_repositories :: "'df world \<Rightarrow> pyval \<Rightarrow> pyval \<Rightarrow> pyval action" where
  "search_repositories W query sort_param =
     GitHubAPIClient_get W ''/search/repositories''
       (Some [(''q'', query), (''sort'', sort_param), (''order'', PStr ''desc''), (''per_page'', PInt 10)])"

text \<open>
  \<open>GitHubAPIClient.get_recent_merged_prs\<close>: the page of closed pull requests, and
  for every item of it with a true \<open>merged_at\<close> the detail record of that pull
  request, fetched by its number.
\<close>

definition pulls_endpoint :: "pyval \<Rightarrow> pyval \<Rightarrow> string" where
  "pulls_endpoint owner repo = ''/repos/'' @ py_str owner @ ''/'' @ py_str repo @ ''/pulls''"

definition pull_endpoint :: "pyval \<Rightarrow> pyval \<Rightarrow> pyval \<Rightarrow> string" where
  "pull_endpoint owner repo number = pulls_endpoint owner repo @ ''/'' @ py_str number"

fun merged_loop :: "'df world \<Rightarrow> pyval \<Rightarrow> pyval \<Rightarrow> pyval list \<Rightarrow> pyval list \<Rightarrow> pyval list action" where
  "merged_loop W owner repo [] merged_prs s = (Inr merged_prs, s)"
| "merged_loop W owner repo (pr # prs) merged_prs s =
     bindM (liftE (py_get pr ''merged_at'' PNone)) (\<lambda>merged_at.
       if truthy merged_at then
         bindM (liftE (py_getitem pr ''number'')) (\<lambda>number.
         bindM (GitHubAPIClient_get W (pull_endpoint owner repo number) None) (\<lambda>pr_details s'.
           merged_loop W owner repo prs (merged_prs @ [pr_details]) s'))
       else (\<lambda>s'. merged_loop W owner repo prs merged_prs s')) s"

definition get_recent_merged_prs :: "'df world \<Rightarrow> pyval \<Rightarrow> pyval \<Rightarrow> int \<Rightarrow> pyval list action" where
  "get_recent_merged_prs W owner repo count =
     bindM (GitHubAPIClient_get W (pulls_endpoint owner repo)
              (Some [(''state'', PStr ''closed''), (''per_page'', PInt count)])) (\<lambda>prs.
     bindM (liftE (py_iter prs)) (\<lambda>items.
       merged_loop W owner repo items []))"

text \<open>
  For stating what the loop keeps: the test \<open>pr.get('merged_at')\<close> on a page
  entry, and the relation between a page entry and the record the detail request
  for its number returns.
\<close>

definition is_merged :: "pyval \<Rightarrow> bool" where
  "is_merged pr = (case py_get pr ''merged_at'' PNone of Inl e \<Rightarrow> False | Inr m \<Rightarrow> truthy m)"

definition is_detail_of :: "'df world \<Rightarrow> pyval \<Rightarrow> pyval \<Rightarrow> pyval \<Rightarrow> pyval \<Rightarrow> bool" where
  "is_detail_of W owner repo d pr =
     (case py_getitem pr ''number'' of
        Inl e \<Rightarrow> False
      | Inr n \<Rightarrow> http_get W (pull_endpoint owner repo n) None = Inr d)"

text \<open>
  The class \<open>GitHubAPIClient\<close> defines no method \<open>get_user_repositories\<close>; the
  attribute lookup \<open>self.github_client.get_user_repositories\<close> raises
  \<open>AttributeError\<close> before anything is called.
\<close>

definition GitHubAPIClient_get_user_repositories :: "pyval \<Rightarrow> pyval action" where
  "GitHubAPIClient_get_user_repositories username =
     liftE (Inl (PyExc ''AttributeError''
       (sq @ ''GitHubAPIClient'' @ sq @ '' object has no attribute ''
        @ sq @ ''get_user_repositories'' @ sq)))"

section \<open>Parameter completion (src/src/cli.py)\<close>

text \<open>
  \<open>GitXRCLI.get_required_params\<close>: the required parameters of an intent with
  their descriptions, in the order the table lists them; an intent the table does
  not know requires nothing.
\<close>

definition owner_repo_params :: "(string \<times> string) list" where
  "owner_repo_params =
     [(''owner'', ''repository owner/organization''), (''repo'', ''repository name'')]"

definition intent_params :: "(string \<times> (string \<times> string) list) list" where
  "intent_params =
     [(''get_contributors'', owner_repo_params),
      (''get_commit_history'', owner_repo_params),
      (''get_recent_merged_prs'', owner_repo_params),
      (''list_user_repositories'', [(''username'', ''GitHub username'')]),
      (''get_user_repositories'', [(''username'', ''GitHub username'')]),
      (''get_repositories'', [(''username'', ''GitHub username'')]),
      (''search_repositories'', [(''query'', ''search term'')]),
      (''unknown'', [])]"

definition get_required_params :: "string \<Rightarrow> (string \<times> string) list" where
  "get_required_params intent = (case map_of intent_params intent of Some ps \<Rightarrow> ps | None \<Rightarrow> [])"

text \<open>
  The test \<open>param_name not in updated_params or not updated_params.get(param_name)\<close>.
\<close>

definition param_missing :: "pydict \<Rightarrow> string \<Rightarrow> bool" where
  "param_missing d param_name =
     (map_of d param_name = None \<or> \<not> truthy (dict_get d param_name PNone))"

text \<open>
  The loop of \<open>validate_and_complete_params\<close> over the required parameters.
  \<open>updated_params\<close> is the address of the dictionary the loop fills in.
\<close>

fun complete_missing :: "(string \<times> string) list \<Rightarrow> nat \<Rightarrow> unit action" where
  "complete_missing [] updated_params s = (Inr (), s)"
| "complete_missing ((param_name, param_desc) # rest) updated_params s =
     (if param_missing (items_of (heap s ! updated_params)) param_name then
        bindM (console_print (''[bold yellow]Missing required parameter:[/bold yellow] ''
                              @ param_desc)) (\<lambda>_.
        bindM (console_input (''Please provide the '' @ param_name @ '' ('' @ param_desc
                              @ ''): '')) (\<lambda>param_value.
        bindM (store_item updated_params param_name (PStr param_value)) (\<lambda>_.
        bindM (history_append ''assistant''
                 (''Could you please provide the '' @ param_name @ '' ('' @ param_desc
                  @ '')?'')) (\<lambda>_.
        bindM (history_append ''user'' param_value) (\<lambda>_ s'.
          complete_missing rest updated_params s'))))) s
      else complete_missing rest updated_params s)"

definition not_dict_warning :: "pyval \<Rightarrow> string" where
  "not_dict_warning v =
     ''[bold yellow]Warning:[/bold yellow] Expected parameters as dictionary but got ''
     @ py_type_str v @ ''. Converting to empty dict.''"

text \<open>
  \<open>GitXRCLI.validate_and_complete_params\<close>. The argument \<open>params\<close> is the address
  of the object passed; the result is the address of \<open>updated_params\<close>, a new
  dictionary object (\<open>params.copy()\<close>, or \<open>{}\<close> after the warning).
\<close>

definition validate_and_complete_params :: "string \<Rightarrow> nat \<Rightarrow> nat action" where
  "validate_and_complete_params intent params s =
     (let required_params = get_required_params intent
      in bindM (if \<not> is_dict (heap s ! params)
                then bindM (console_print (not_dict_warning (heap s ! params))) (\<lambda>_.
                       alloc (PDict []))
                else alloc (PDict (items_of (heap s ! params)))) (\<lambda>updated_params.
         bindM (complete_missing required_params updated_params) (\<lambda>_.
           returnM updated_params)) s)"

section \<open>Classification (src/src/cli.py, \<open>process_query\<close>)\<close>

text \<open>
  The first stage of \<open>GitXRCLI.process_query\<close>, which computes \<open>intent_data\<close>:
  the fast path on \<open>is_list_repos_query\<close>; otherwise the call of the language
  model, whose result is kept when it is a dictionary; the fallback when the
  result is no dictionary or the call raised.
\<close>

definition LLMClient_process_query :: "'df world \<Rightarrow> string \<Rightarrow> pyval action" where
  "LLMClient_process_query W query s =
     (llm_process_query W query (conversation_history s),
      s\<lparr>llm_log := llm_log s @ [(query, conversation_history s)]\<rparr>)"

definition classify :: "'df world \<Rightarrow> string \<Rightarrow> pyval action" where
  "classify W query =
     (if is_list_repos_query query then
        bindM (console_print
                 ''[blue]Using direct pattern matching for repository listing query[/blue]'') (\<lambda>_.
          returnM (fallback_intent_detection query))
      else
        catchM
          (bindM (LLMClient_process_query W query) (\<lambda>intent_data.
             if \<not> is_dict intent_data then
               bindM (console_print
                        (''[bold yellow]Warning:[/bold yellow] LLM returned non-dictionary: ''
                         @ py_str intent_data)) (\<lambda>_.
               bindM (console_print
                        ''[blue]Using fallback pattern matching for intent detection[/blue]'') (\<lambda>_.
                 returnM (fallback_intent_detection query)))
             else returnM intent_data))
          (\<lambda>e.
             bindM (console_print (''[bold yellow]LLM processing failed: '' @ exc_str e
                                   @ ''[/bold yellow]'')) (\<lambda>_.
             bindM (console_print
                      ''[blue]Using fallback pattern matching due to LLM failure[/blue]'') (\<lambda>_.
               returnM (fallback_intent_detection query)))))"

section \<open>Dispatch (src/src/cli.py, \<open>execute_intent\<close>)\<close>

definition bindE :: "pyexc + 'a \<Rightarrow> ('a \<Rightarrow> pyexc + 'b) \<Rightarrow> pyexc + 'b" where
  "bindE r f = (case r of Inl e \<Rightarrow> Inl e | Inr x \<Rightarrow> f x)"

text \<open>\<open>self.visualizer.show_console_table(df, title)\<close>\<close>

definition show_table :: "'df world \<Rightarrow> 'df \<Rightarrow> string \<Rightarrow> unit action" where
  "show_table W df title = bindM (liftE (show_console_table W df title)) console_write"

text \<open>The display row built for one repository, and the rows for a list of them.\<close>

definition repo_row :: "pyval \<Rightarrow> pyexc + pyval" where
  "repo_row repo =
     bindE (py_getitem repo ''name'') (\<lambda>name.
     bindE (py_get repo ''description'' (PStr ''No description'')) (\<lambda>description.
     bindE (py_getitem repo ''stargazers_count'') (\<lambda>stars.
     bindE (py_getitem repo ''forks_count'') (\<lambda>forks.
     bindE (py_getitem repo ''updated_at'') (\<lambda>updated.
     bindE (py_getitem repo ''html_url'') (\<lambda>url.
       Inr (PDict [(''Name'', name), (''Description'', description), (''Stars'', stars),
                   (''Forks'', forks), (''Last Updated'', updated), (''URL'', url)])))))))"

fun repo_rows :: "pyval list \<Rightarrow> pyexc + pyval list" where
  "repo_rows [] = Inr []"
| "repo_rows (repo # rest) =
     (case repo_row repo of
        Inl e \<Rightarrow> Inl e
      | Inr row \<Rightarrow> (case repo_rows rest of Inl e \<Rightarrow> Inl e | Inr rows \<Rightarrow> Inr (row # rows)))"

text \<open>
  The statements of the inner \<open>try\<close> that follow the call
  \<open>data = self.github_client.get_user_repositories(username)\<close>.
\<close>

definition repositories_envelope :: "'df world \<Rightarrow> pyval \<Rightarrow> pyval \<Rightarrow> pyval action" where
  "repositories_envelope W username data =
     (if \<not> truthy data then
        bindM (console_print (''[yellow]No repositories found for user: '' @ py_str username
                              @ ''[/yellow]'')) (\<lambda>_.
          returnM (PDict [(''repositories'', PList []),
                          (''message'', PStr (''No repositories found for '' @ py_str username))]))
      else
        (case data of
           PList repos \<Rightarrow>
             bindM (liftE (repo_rows repos)) (\<lambda>repos_data.
             bindM (liftE (DataFrame W (PList repos_data))) (\<lambda>df.
             bindM (show_table W df (''Repositories for user '' @ sq @ py_str username @ sq)) (\<lambda>_.
               returnM (PDict [(''repositories'', data)]))))
         | _ \<Rightarrow>
             bindM (console_print (''[bold yellow]Warning:[/bold yellow] Unexpected data format: ''
                                   @ py_type_str data)) (\<lambda>_.
               returnM (PDict [(''error'',
                                PStr (''Unexpected data format: '' @ py_type_str data))]))))"

text \<open>
  The branch of \<open>execute_intent\<close> for \<open>list_user_repositories\<close> and
  \<open>get_user_repositories\<close>; \<open>fetch\<close> is the call
  \<open>self.github_client.get_user_repositories\<close>.
\<close>

definition list_repositories_branch ::
  "'df world \<Rightarrow> (pyval \<Rightarrow> pyval action) \<Rightarrow> pyval \<Rightarrow> pyval action" where
  "list_repositories_branch W fetch params =
     bindM (liftE (py_get params ''username'' PNone)) (\<lambda>username.
       if \<not> truthy username then
         bindM (console_print
                  ''[bold red]Error: No username provided for repository listing[/bold red]'') (\<lambda>_.
           returnM (PDict [(''error'', PStr ''No username provided'')]))
       else
         bindM (console_print (''[blue]Fetching repositories for user: '' @ py_str username
                               @ ''[/blue]'')) (\<lambda>_.
           catchM
             (bindM (fetch username) (\<lambda>data. repositories_envelope W username data))
             (\<lambda>e.
                bindM (console_print (''[bold red]Error fetching repositories:[/bold red] ''
                                      @ exc_str e)) (\<lambda>_.
                  returnM (PDict [(''error'', PStr (exc_str e))])))))"

text \<open>The body of the outer \<open>try\<close> of \<open>execute_intent\<close>.\<close>

definition execute_intent_try ::
  "'df world \<Rightarrow> pydict \<Rightarrow> pyval \<Rightarrow> pyval \<Rightarrow> pyval action" where
  "execute_intent_try W intent_data intent params =
     (if intent = PStr ''get_contributors'' then
        bindM (liftE (py_get params ''owner'' PNone)) (\<lambda>owner.
        bindM (liftE (py_get params ''repo'' PNone)) (\<lambda>repo.
        bindM (get_repository_contributors W owner repo) (\<lambda>data.
        bindM (liftE (contributors_to_dataframe W data)) (\<lambda>df.
        bindM (show_table W df (''Contributors for '' @ py_str owner @ ''/'' @ py_str repo)) (\<lambda>_.
          returnM (PDict [(''contributors'', data)]))))))
      else if intent = PStr ''get_commit_history'' then
        bindM (liftE (py_get params ''branch'' (PStr ''main''))) (\<lambda>branch.
        bindM (liftE (py_get params ''count'' (PInt 10))) (\<lambda>count_arg.
        bindM (liftE (py_int count_arg)) (\<lambda>count.
        bindM (liftE (py_get params ''owner'' PNone)) (\<lambda>owner.
        bindM (liftE (py_get params ''repo'' PNone)) (\<lambda>repo.
        bindM (get_commit_history W owner repo branch count) (\<lambda>data.
        bindM (liftE (commits_to_dataframe W data)) (\<lambda>df.
        bindM (show_table W df (''Commit history for '' @ py_str owner @ ''/'' @ py_str repo)) (\<lambda>_.
          returnM (PDict [(''commits'', data)])))))))))
      else if intent = PStr ''get_recent_merged_prs'' then
        bindM (liftE (py_get params ''count'' (PInt 10))) (\<lambda>count_arg.
        bindM (liftE (py_int count_arg)) (\<lambda>count.
        bindM (liftE (py_get params ''owner'' PNone)) (\<lambda>owner.
        bindM (liftE (py_get params ''repo'' PNone)) (\<lambda>repo.
        bindM (get_recent_merged_prs W owner repo count) (\<lambda>data.
        bindM (liftE (pull_requests_to_dataframe W (PList data))) (\<lambda>df.
        bindM (show_table W df (''Recent merged PRs for '' @ py_str owner @ ''/''
                                @ py_str repo)) (\<lambda>_.
          returnM (PDict [(''pull_requests'', PList data)]))))))))
      else if intent = PStr ''list_user_repositories'' \<or> intent = PStr ''get_user_repositories'' then
        list_repositories_branch W GitHubAPIClient_get_user_repositories params
      else if intent = PStr ''search_repositories'' then
        bindM (liftE (py_get params ''query'' PNone)) (\<lambda>query.
        bindM (liftE (py_get params ''sort'' (PStr ''stars''))) (\<lambda>sort_param.
        bindM (search_repositories W query sort_param) (\<lambda>data.
        bindM (liftE (search_results_to_dataframe W
                        (case data of PDict d \<Rightarrow> dict_get d ''items'' (PList []) | _ \<Rightarrow> data)
                        ''repositories'')) (\<lambda>df.
        bindM (show_table W df (''Repository search results for '' @ sq @ py_str query @ sq)) (\<lambda>_.
          returnM (PDict [(''search_results'', data)]))))))
      else if intent = PStr ''unknown'' then
        bindM (console_print (''[bold yellow]Could not determine specific intent. ''
                              @ ''Please try rephrasing your query.[/bold yellow]'')) (\<lambda>_.
          returnM (PDict [(''error'', PStr ''Unknown intent''),
                          (''query'', dict_get intent_data ''query'' (PStr []))]))
      else
        bindM (console_print (''[bold yellow]Unhandled intent:[/bold yellow] '' @ py_str intent)) (\<lambda>_.
          returnM (PDict [(''error'', PStr (''Unhandled intent: '' @ py_str intent))])))"

text \<open>
  \<open>GitXRCLI.execute_intent\<close>: the two aliases are renamed, the body runs, and any
  exception of the body becomes the error envelope. (The traceback the handler
  prints goes to standard error, which the session does not record.)
\<close>

definition canonical_intent :: "pyval \<Rightarrow> pyval" where
  "canonical_intent intent =
     (if intent \<in> set [PStr ''get_repositories'', PStr ''get_repos'']
      then PStr ''list_user_repositories'' else intent)"

definition execute_intent_except :: "pyexc \<Rightarrow> pyval action" where
  "execute_intent_except e =
     bindM (console_print (''[bold red]Error executing intent:[/bold red] '' @ exc_str e)) (\<lambda>_.
       returnM (PDict [(''error'', PStr (exc_str e))]))"

definition execute_intent :: "'df world \<Rightarrow> pydict \<Rightarrow> pyval action" where
  "execute_intent W intent_data =
     (let intent = canonical_intent (dict_get intent_data ''intent'' PNone);
          params = dict_get intent_data ''parameters'' (PDict [])
      in catchM (execute_intent_try W intent_data intent params) execute_intent_except)"

section \<open>Notions for the statements\<close>

text \<open>
  For stating what parameter completion does: the required parameters the loop
  asks for (those the dictionary lacks or holds a false value for), the two lines
  it prints for each of them, the two turns it appends to the conversation history
  for each answer, and the dictionary with the answers filled in.
\<close>

definition missing_params :: "pydict \<Rightarrow> (string \<times> string) list \<Rightarrow> (string \<times> string) list" where
  "missing_params d required_params = filter (\<lambda>p. param_missing d (fst p)) required_params"

fun prompt_lines :: "(string \<times> string) list \<Rightarrow> string list" where
  "prompt_lines [] = []"
| "prompt_lines ((param_name, param_desc) # rest) =
     (''[bold yellow]Missing required parameter:[/bold yellow] '' @ param_desc)
     # (''Please provide the '' @ param_name @ '' ('' @ param_desc @ ''): '')
     # prompt_lines rest"

fun prompt_turns :: "((string \<times> string) \<times> string) list \<Rightarrow> pyval list" where
  "prompt_turns [] = []"
| "prompt_turns (((param_name, param_desc), param_value) # rest) =
     PDict [(''role'', PStr ''assistant''),
            (''content'', PStr (''Could you please provide the '' @ param_name @ '' (''
                                @ param_desc @ '')?''))]
     # PDict [(''role'', PStr ''user''), (''content'', PStr param_value)]
     # prompt_turns rest"

fun fill_params :: "pydict \<Rightarrow> ((string \<times> string) \<times> string) list \<Rightarrow> pydict" where
  "fill_params d [] = d"
| "fill_params d (((param_name, param_desc), param_value) # rest) =
     fill_params (dict_set d param_name (PStr param_value)) rest"

text \<open>A required parameter whose name and description hold no bracket.\<close>

definition plain_param :: "string \<times> string \<Rightarrow> bool" where
  "plain_param p = (CHR 0x5B \<notin> set (fst p) \<and> CHR 0x5B \<notin> set (snd p))"

section \<open>Concrete sessions and collaborators\<close>

text \<open>
  Inputs on which the theorems below are instantiated: an empty session, a world
  built from an HTTP responder and a language-model responder whose presentation
  layer accepts every table, and a few responders. The console of the empty
  session leaves a style name as it is up to case and surrounding whitespace.
\<close>

definition plain_console :: rich_console where
  "plain_console = \<lparr>style_normalize = (\<lambda>name. lower (strip name)),
                     handler_error = (\<lambda>parameters. None)\<rparr>"

definition session0 :: session where
  "session0 = \<lparr>console = plain_console, console_out = [], console_in = [],
                conversation_history = [], net_log = [], llm_log = [], heap = []\<rparr>"

definition quiet_world ::
  "(string \<Rightarrow> pydict option \<Rightarrow> pyexc + pyval) \<Rightarrow> (string \<Rightarrow> pyval list \<Rightarrow> pyexc + pyval)
   \<Rightarrow> unit world" where
  "quiet_world http llm =
     \<lparr>http_get = http, llm_process_query = llm,
      contributors_to_dataframe = (\<lambda>data. Inr ()),
      commits_to_dataframe = (\<lambda>data. Inr ()),
      pull_requests_to_dataframe = (\<lambda>data. Inr ()),
      search_results_to_dataframe = (\<lambda>data kind. Inr ()),
      DataFrame = (\<lambda>data. Inr ()),
      show_console_table = (\<lambda>df title. Inr title)\<rparr>"

definition llm_down :: "string \<Rightarrow> pyval list \<Rightarrow> pyexc + pyval" where
  "llm_down query history = Inl (PyExc ''APIConnectionError'' ''Connection error.'')"



definition http_down :: "string \<Rightarrow> pydict option \<Rightarrow> pyexc + pyval" where
  "http_down endpoint params = Inl (PyExc ''ConnectionError'' ''Connection refused'')"

definition session_octocat :: session where
  "session_octocat = session0\<lparr>heap := [PDict [(''username'', PStr ''octocat'')]]\<rparr>"

definition session_list_params :: session where
  "session_list_params = session0\<lparr>heap := [PList []], console_in := ['''']\<rparr>"

definition session_empty_params :: session where
  "session_empty_params = session0\<lparr>heap := [PDict []], console_in := [''torvalds'', ''linux'']\<rparr>"

definition session_owner_only :: session where
  "session_owner_only =
     session0\<lparr>heap := [PDict [(''owner'', PStr ''torvalds''), (''repo'', PStr '''')]]\<rparr>"





definition merged_pr_1 :: pyval where
  "merged_pr_1 = PDict [(''number'', PInt 1), (''state'', PStr ''closed''),
                        (''merged_at'', PStr ''2024-05-01T10:00:00Z'')]"

definition unmerged_pr_2 :: pyval where
  "unmerged_pr_2 = PDict [(''number'', PInt 2), (''state'', PStr ''closed''),
                          (''merged_at'', PNone)]"

definition merged_pr_1_details :: pyval where
  "merged_pr_1_details = PDict [(''number'', PInt 1), (''state'', PStr ''closed''),
                                (''merged_at'', PStr ''2024-05-01T10:00:00Z''),
                                (''merged_by'', PDict [(''login'', PStr ''octocat'')])]"

definition pulls_http :: "string \<Rightarrow> pydict option \<Rightarrow> pyexc + pyval" where
  "pulls_http endpoint params =
     (if endpoint = ''/repos/o/r/pulls'' then Inr (PList [merged_pr_1, unmerged_pr_2])
      else if endpoint = ''/repos/o/r/pulls/1'' then Inr merged_pr_1_details
      else Inl (PyExc ''HTTPError'' ''404 Client Error: Not Found''))"

text \<open>
  An API that ignores the page size and whose detail records carry no merge
  timestamp.
\<close>

definition merged_pr_3 :: pyval where
  "merged_pr_3 = PDict [(''number'', PInt 3), (''state'', PStr ''closed''),
                        (''merged_at'', PStr ''2024-06-01T10:00:00Z'')]"

definition stale_details :: "int \<Rightarrow> pyval" where
  "stale_details number = PDict [(''number'', PInt number), (''state'', PStr ''closed''),
                                 (''merged_at'', PNone)]"

definition stale_http :: "string \<Rightarrow> pydict option \<Rightarrow> pyexc + pyval" where
  "stale_http endpoint params =
     (if endpoint = ''/repos/o/r/pulls'' then Inr (PList [merged_pr_1, merged_pr_3])
      else if endpoint = ''/repos/o/r/pulls/1'' then Inr (stale_details 1)
      else if endpoint = ''/repos/o/r/pulls/3'' then Inr (stale_details 3)
      else Inl (PyExc ''HTTPError'' ''404 Client Error: Not Found''))"



section \<open>Properties of the classifier\<close>

lemmas string_ops = lower_def lower_char_def upper_letters_def lower_letters_def any_in_def
  repo_terms_def action_terms_def extract_username_def replace_def strip_def is_space_def split1_def

lemmas action_ops = bindM_def returnM_def liftE_def catchM_def console_print_def

section \<open>Markup of the program's messages\<close>

lemmas markup_ops = markup_error_def tag_at_def tag_start_char_def tag_of_def tag_markup_def
  apply_tag_def closed_tag_def markup_exc_def strip_def is_space_def Let_def

text \<open>
  The messages the program prints as they stand open and close their own tags, so
  printing them never raises, whatever normal form the styles have.
\<close>

lemma direct_message_markup:
  "markup_error C ''[blue]Using direct pattern matching for repository listing query[/blue]'' = None"
  by (simp add: markup_ops)

lemma fallback_message_markup:
  "markup_error C ''[blue]Using fallback pattern matching for intent detection[/blue]'' = None"
  by (simp add: markup_ops)

lemma failure_message_markup:
  "markup_error C ''[blue]Using fallback pattern matching due to LLM failure[/blue]'' = None"
  by (simp add: markup_ops)

lemma no_username_message_markup:
  "markup_error C ''[bold red]Error: No username provided for repository listing[/bold red]'' = None"
  by (simp add: markup_ops)

lemma unknown_message_markup:
  "markup_error C (''[bold yellow]Could not determine specific intent. ''
                   @ ''Please try rephrasing your query.[/bold yellow]'') = None"
  by (simp add: markup_ops)

lemmas fixed_messages = direct_message_markup fallback_message_markup failure_message_markup
  no_username_message_markup unknown_message_markup

section \<open>Classification\<close>

text \<open>
  C6. The specification gives \<open>machine learning\<close> as the search term the fallback extracts
  from the query \<open>search repositories machine learning\<close>. The code removes
  \<open>repos\<close> before \<open>repositories\<close>, so the word \<open>repositories\<close> loses only
  its first five letters and the search term is \<open>itories machine learning\<close>.
\<close>

theorem fallback_search_residue: "fallback_intent_detection ''search repositories machine learning'' =
   PDict [(''intent'', PStr ''search_repositories''),
          (''parameters'', PDict [(''query'', PStr ''itories machine learning'')])]"
  by (simp add: fallback_intent_detection_def string_ops)

text \<open>
  C1. The specification says every query the fast path accepts is classified as
  \<open>list_user_repositories\<close>. The query \<open>repos of octocat\<close> is accepted by
  \<open>is_list_repos_query\<close> (a repository term and \<open>of\<close>), the language model is
  not called, and the intent produced is \<open>unknown\<close>.
\<close>

theorem fast_path_of_pattern_unknown: "is_list_repos_query ''repos of octocat'' \<and>
   classify W ''repos of octocat'' s =
     (Inr (PDict [(''intent'', PStr ''unknown''), (''parameters'', PDict [])]),
      s\<lparr>console_out := console_out s
           @ [''[blue]Using direct pattern matching for repository listing query[/blue]'']\<rparr>)"
  by (simp add: classify_def is_list_repos_query_def fallback_intent_detection_def string_ops action_ops
      fixed_messages)

lemma fallback_action_repo:
  assumes "any_in action_terms (lower q)" and "any_in repo_terms (lower q)"
  shows "\<exists>p. fallback_intent_detection q =
            PDict [(''intent'', PStr ''list_user_repositories''), (''parameters'', PDict p)]"
  using assms by (simp add: fallback_intent_detection_def action_terms_def Let_def)

lemma fast_path_skips_llm:
  assumes "is_list_repos_query q"
  shows "classify W q s = (Inr (fallback_intent_detection q),
      s\<lparr>console_out := console_out s
           @ [''[blue]Using direct pattern matching for repository listing query[/blue]'']\<rparr>)"
  using assms by (simp add: classify_def action_ops fixed_messages)



text \<open>
  Text without an opening bracket holds no tag: the scan passes over it, and what
  follows it is scanned with the same open tags.
\<close>

lemma scan_plain:
  assumes "CHR 0x5B \<notin> set x"
  shows "\<exists>e'. scan_markup C p 0 e st (x @ r) = scan_markup C (p + length x) 0 e' st r"
  using assms
proof (induction x arbitrary: p e)
  case Nil
  then show ?case by auto
next
  case (Cons c x)
  from Cons.prems have c: "c \<noteq> CHR 0x5B" and x: "CHR 0x5B \<notin> set x" by auto
  show ?case
  proof (cases "c = CHR 0x5C")
    case True
    from Cons.IH [OF x, of "p + 1" "e + 1"] show ?thesis using True by simp
  next
    case False
    from Cons.IH [OF x, of "p + 1" 0] show ?thesis using False c by simp
  qed
qed

lemma plain_markup:
  assumes "CHR 0x5B \<notin> set x"
  shows "markup_error C x = None"
  using scan_plain [OF assms, of C 0 0 "[]" "[]"] by (auto simp add: markup_error_def)








section \<open>Properties of parameter completion\<close>

lemmas effect_ops = action_ops console_input_def history_append_def store_item_def alloc_def

text \<open>
  The lines of the completion dialogue hold no tag besides their own: the
  descriptions of the table and the names of the types have no bracket.
\<close>

lemma missing_text_markup:
  assumes "CHR 0x5B \<notin> set x"
  shows "markup_error C (''[bold yellow]Missing required parameter:[/bold yellow] '' @ x) = None"
proof -
  obtain p where "markup_error C (''[bold yellow]Missing required parameter:[/bold yellow] '' @ x)
      = scan_markup C p 0 0 [] (x @ [])"
    by (simp add: markup_ops)
  moreover obtain e' where "scan_markup C p 0 0 [] (x @ []) = scan_markup C (p + length x) 0 e' [] []"
    using scan_plain [OF assms] by blast
  ultimately show ?thesis by simp
qed

lemma not_dict_warning_markup: "markup_error C (not_dict_warning v) = None"
proof -
  have plain: "CHR 0x5B \<notin> set (py_type_str v @ ''. Converting to empty dict.'')"
    by (cases v) (simp_all add: py_type_str_def sq_def)
  obtain p where "markup_error C (not_dict_warning v)
      = scan_markup C p 0 0 [] ((py_type_str v @ ''. Converting to empty dict.'') @ [])"
    by (simp add: markup_ops not_dict_warning_def)
  moreover obtain e' where "scan_markup C p 0 0 [] ((py_type_str v @ ''. Converting to empty dict.'') @ [])
      = scan_markup C (p + length (py_type_str v @ ''. Converting to empty dict.'')) 0 e' [] []"
    using scan_plain [OF plain] by blast
  ultimately show ?thesis by simp
qed

lemma plain_param_prompts:
  assumes "plain_param (k, desc)"
  shows "markup_error C (''[bold yellow]Missing required parameter:[/bold yellow] '' @ desc) = None"
    and "markup_error C (''Please provide the '' @ k @ '' ('' @ desc @ ''): '') = None"
proof -
  have "CHR 0x5B \<notin> set desc" using assms by (simp add: plain_param_def)
  then show "markup_error C (''[bold yellow]Missing required parameter:[/bold yellow] '' @ desc) = None"
    by (rule missing_text_markup)
  have "CHR 0x5B \<notin> set (''Please provide the '' @ k @ '' ('' @ desc @ ''): '')"
    using assms by (simp add: plain_param_def)
  then show "markup_error C (''Please provide the '' @ k @ '' ('' @ desc @ ''): '') = None"
    by (rule plain_markup)
qed

lemma required_params_cases:
  "get_required_params intent = owner_repo_params
   \<or> get_required_params intent = [(''username'', ''GitHub username'')]
   \<or> get_required_params intent = [(''query'', ''search term'')]
   \<or> get_required_params intent = []"
  by (simp add: get_required_params_def intent_params_def)

lemma required_params_plain: "list_all plain_param (get_required_params intent)"
  using required_params_cases [of intent] by (auto simp add: plain_param_def owner_repo_params_def)

lemma required_params_distinct: "distinct (map fst (get_required_params intent))"
  using required_params_cases [of intent] by (auto simp add: owner_repo_params_def)

text \<open>One round of the loop of \<open>validate_and_complete_params\<close>.\<close>

lemma complete_missing_step:
  "complete_missing ((k, desc) # req) u s =
     (if \<not> param_missing (items_of (heap s ! u)) k then complete_missing req u s
      else case markup_error (console s)
                  (''[bold yellow]Missing required parameter:[/bold yellow] '' @ desc) of
             Some e \<Rightarrow> (Inl e, s)
           | None \<Rightarrow>
               (case markup_error (console s)
                       (''Please provide the '' @ k @ '' ('' @ desc @ ''): '') of
                  Some e \<Rightarrow>
                    (Inl e, s\<lparr>console_out := console_out s
                       @ [''[bold yellow]Missing required parameter:[/bold yellow] '' @ desc]\<rparr>)
                | None \<Rightarrow>
                    (case console_in s of
                       [] \<Rightarrow>
                         (Inl (PyExc ''EOFError'' ''EOF when reading a line''),
                          s\<lparr>console_out := console_out s
                             @ [''[bold yellow]Missing required parameter:[/bold yellow] '' @ desc,
                                ''Please provide the '' @ k @ '' ('' @ desc @ ''): '']\<rparr>)
                     | line # rest \<Rightarrow>
                         complete_missing req u
                           (s\<lparr>console_out := console_out s
                              @ [''[bold yellow]Missing required parameter:[/bold yellow] '' @ desc,
                                 ''Please provide the '' @ k @ '' ('' @ desc @ ''): ''],
                             console_in := rest,
                             heap := (heap s)[u := PDict (dict_set (items_of (heap s ! u)) k
                                                            (PStr line))],
                             conversation_history := conversation_history s
                               @ [PDict [(''role'', PStr ''assistant''),
                                         (''content'', PStr (''Could you please provide the '' @ k
                                                             @ '' ('' @ desc @ '')?''))],
                                  PDict [(''role'', PStr ''user''), (''content'', PStr line)]]\<rparr>))))"
  by (simp add: effect_ops split: option.splits list.splits)

lemma complete_missing_noop:
  assumes "\<forall>k\<in>fst ` set req. \<not> param_missing (items_of (heap s ! u)) k"
  shows "complete_missing req u s = (Inr (), s)"
  using assms by (induction req arbitrary: s) auto

lemma complete_missing_frame:
  assumes "complete_missing req u s = (r, s')"
  shows "length (heap s') = length (heap s) \<and> (\<forall>a. a \<noteq> u \<longrightarrow> heap s' ! a = heap s ! a)"
  using assms
proof (induction req arbitrary: s)
  case Nil
  then show ?case by simp
next
  case (Cons p req)
  obtain k desc where p: "p = (k, desc)" by (cases p)
  note step = complete_missing_step [of k desc req u s]
  show ?case
  proof (cases "param_missing (items_of (heap s ! u)) k")
    case False
    then show ?thesis using Cons p by simp
  next
    case True
    show ?thesis
    proof (cases "markup_error (console s)
                    (''[bold yellow]Missing required parameter:[/bold yellow] '' @ desc)")
      case (Some e)
      then show ?thesis using Cons.prems p True step by auto
    next
      case n1: None
      show ?thesis
      proof (cases "markup_error (console s) (''Please provide the '' @ k @ '' ('' @ desc @ ''): '')")
        case (Some e)
        then show ?thesis using Cons.prems p True n1 step by auto
      next
        case n2: None
        show ?thesis
        proof (cases "console_in s")
          case Nil
          then show ?thesis using Cons.prems p True n1 n2 step by auto
        next
          case (Cons line rest)
          define s4 where "s4 = s\<lparr>console_out := console_out s
                  @ [''[bold yellow]Missing required parameter:[/bold yellow] '' @ desc,
                     ''Please provide the '' @ k @ '' ('' @ desc @ ''): ''],
                console_in := rest,
                heap := (heap s)[u := PDict (dict_set (items_of (heap s ! u)) k (PStr line))],
                conversation_history := conversation_history s
                  @ [PDict [(''role'', PStr ''assistant''),
                            (''content'', PStr (''Could you please provide the '' @ k @ '' (''
                                                @ desc @ '')?''))],
                     PDict [(''role'', PStr ''user''), (''content'', PStr line)]]\<rparr>"
          have run: "complete_missing (p # req) u s = complete_missing req u s4"
            using p True n1 n2 Cons step by (simp add: s4_def)
          have "length (heap s') = length (heap s4) \<and> (\<forall>a. a \<noteq> u \<longrightarrow> heap s' ! a = heap s4 ! a)"
            using Cons.IH [of s4] Cons.prems run by simp
          then show ?thesis by (simp add: s4_def)
        qed
      qed
    qed
  qed
qed

lemma map_of_dict_set:
  "map_of (dict_set d k v) k' = (if k' = k then Some v else map_of d k')"
  by (simp add: dict_set_def update_conv')

lemma param_missing_dict_set_other:
  "k' \<noteq> k \<Longrightarrow> param_missing (dict_set d k v) k' = param_missing d k'"
  by (simp add: param_missing_def dict_get_def map_of_dict_set)

lemma missing_params_dict_set:
  assumes "k \<notin> fst ` set req"
  shows "missing_params (dict_set d k v) req = missing_params d req"
proof -
  have "fst p \<noteq> k" if "p \<in> set req" for p using assms that by force
  then show ?thesis
    unfolding missing_params_def
    by (intro filter_cong refl) (simp add: param_missing_dict_set_other)
qed

lemma fill_params_other:
  assumes "k \<notin> fst ` set ps"
  shows "map_of (fill_params d (zip ps ls)) k = map_of d k"
  using assms
proof (induction ps arbitrary: d ls)
  case Nil
  then show ?case by simp
next
  case (Cons p ps)
  obtain k' desc where p: "p = (k', desc)" by (cases p)
  show ?case
  proof (cases ls)
    case Nil
    then show ?thesis by simp
  next
    case (Cons l ls')
    have "k \<noteq> k'" "k \<notin> fst ` set ps" using Cons.prems p by auto
    then show ?thesis using Cons.IH [of "dict_set d k' (PStr l)" ls'] Cons p
      by (simp add: map_of_dict_set)
  qed
qed

lemma fill_params_nth:
  assumes "distinct (map fst ps)" and "i < length ps" and "i < length ls"
  shows "map_of (fill_params d (zip ps ls)) (fst (ps ! i)) = Some (PStr (ls ! i))"
  using assms
proof (induction ps arbitrary: d ls i)
  case Nil
  then show ?case by simp
next
  case (Cons p ps)
  obtain k desc where p: "p = (k, desc)" by (cases p)
  obtain l ls' where ls: "ls = l # ls'" using Cons.prems(3) by (cases ls) auto
  have notin: "k \<notin> fst ` set ps" and dist: "distinct (map fst ps)"
    using Cons.prems(1) p by auto
  show ?case
  proof (cases i)
    case 0
    then show ?thesis
      using fill_params_other [OF notin, of "dict_set d k (PStr l)" ls'] p ls
      by (simp add: map_of_dict_set)
  next
    case (Suc j)
    then have "j < length ps" "j < length ls'" using Cons.prems ls by auto
    from Cons.IH [OF dist this, of "dict_set d k (PStr l)"] show ?thesis using Suc p ls by simp
  qed
qed

text \<open>
  The whole loop, for required parameters with distinct names whose prompts hold
  no bracket: it asks for the missing parameters in turn, as long as there are
  lines to read.
\<close>

lemma complete_missing_run:
  assumes "heap s ! u = PDict d" and "u < length (heap s)"
      and "distinct (map fst req)" and "list_all plain_param req"
  shows "complete_missing req u s =
     (if length (missing_params d req) \<le> length (console_in s) then Inr ()
      else Inl (PyExc ''EOFError'' ''EOF when reading a line''),
      s\<lparr>console_out := console_out s
           @ prompt_lines (take (Suc (length (console_in s))) (missing_params d req)),
        console_in := drop (length (missing_params d req)) (console_in s),
        conversation_history := conversation_history s
           @ prompt_turns (zip (missing_params d req) (console_in s)),
        heap := (heap s)[u := PDict (fill_params d (zip (missing_params d req) (console_in s)))]\<rparr>)"
  using assms
proof (induction req arbitrary: s d)
  case Nil
  have "(heap s)[u := PDict d] = heap s" using Nil by (metis list_update_id)
  then show ?case by (simp add: missing_params_def)
next
  case (Cons p req)
  obtain k desc where p: "p = (k, desc)" by (cases p)
  have dist: "distinct (map fst req)" and plain: "list_all plain_param req"
    and notin: "k \<notin> fst ` set req" and pk: "plain_param (k, desc)"
    using Cons.prems p by auto
  note step = complete_missing_step [of k desc req u s]
  have items: "items_of (heap s ! u) = d" using Cons.prems(1) by (simp add: items_of_def)
  show ?case
  proof (cases "param_missing d k")
    case False
    then have m: "missing_params d (p # req) = missing_params d req"
      by (simp add: missing_params_def p)
    show ?thesis
      using Cons.IH [OF Cons.prems(1) Cons.prems(2) dist plain] step False items p m by simp
  next
    case True
    then have m: "missing_params d (p # req) = (k, desc) # missing_params d req"
      by (simp add: missing_params_def p)
    note ok = plain_param_prompts [OF pk, of "console s"]
    show ?thesis
    proof (cases "console_in s")
      case Nil
      have "(heap s)[u := PDict d] = heap s" using Cons.prems(1) by (metis list_update_id)
      then show ?thesis using step True items p m ok Nil by simp
    next
      case (Cons line rest)
      define d1 where "d1 = dict_set d k (PStr line)"
      define s4 where "s4 = s\<lparr>console_out := console_out s
              @ [''[bold yellow]Missing required parameter:[/bold yellow] '' @ desc,
                 ''Please provide the '' @ k @ '' ('' @ desc @ ''): ''],
            console_in := rest,
            heap := (heap s)[u := PDict d1],
            conversation_history := conversation_history s
              @ [PDict [(''role'', PStr ''assistant''),
                        (''content'', PStr (''Could you please provide the '' @ k @ '' (''
                                            @ desc @ '')?''))],
                 PDict [(''role'', PStr ''user''), (''content'', PStr line)]]\<rparr>"
      have run: "complete_missing (p # req) u s = complete_missing req u s4"
        using step True items p ok Cons by (simp add: s4_def d1_def)
      have h4: "heap s4 ! u = PDict d1" and u4: "u < length (heap s4)"
        using \<open>u < length (heap s)\<close> by (simp_all add: s4_def)
      have m1: "missing_params d1 req = missing_params d req"
        unfolding d1_def by (rule missing_params_dict_set [OF notin])
      show ?thesis
        unfolding run Cons.IH [OF h4 u4 dist plain] m1 m
        using Cons by (simp add: s4_def d1_def)
    qed
  qed
qed

lemma validate_dict:
  assumes "heap s ! params = PDict d"
  shows "validate_and_complete_params intent params s =
           bindM (complete_missing (get_required_params intent) (length (heap s)))
             (\<lambda>_. returnM (length (heap s))) (s\<lparr>heap := heap s @ [PDict d]\<rparr>)"
  using assms by (simp add: validate_and_complete_params_def effect_ops items_of_def)

lemma validate_not_dict:
  assumes "\<not> is_dict (heap s ! params)"
  shows "validate_and_complete_params intent params s =
           bindM (complete_missing (get_required_params intent) (length (heap s)))
             (\<lambda>_. returnM (length (heap s)))
             (s\<lparr>console_out := console_out s @ [not_dict_warning (heap s ! params)],
                heap := heap s @ [PDict []]\<rparr>)"
  using assms
  by (simp add: validate_and_complete_params_def effect_ops not_dict_warning_markup)

lemma is_dict_items: "is_dict v \<Longrightarrow> v = PDict (items_of v)"
  by (cases v) (simp_all add: items_of_def)

lemma not_dict_items: "\<not> is_dict v \<Longrightarrow> items_of v = []"
  by (cases v) (simp_all add: items_of_def)

text \<open>
  The whole of \<open>validate_and_complete_params\<close>: its result and the session it
  leaves, for every intent, argument and session.
\<close>

lemma validate_run:
  "validate_and_complete_params intent params s =
     (let given = items_of (heap s ! params);
          asked = missing_params given (get_required_params intent);
          answered = zip asked (console_in s)
      in (if length asked \<le> length (console_in s) then Inr (length (heap s))
          else Inl (PyExc ''EOFError'' ''EOF when reading a line''),
          s\<lparr>console_out := console_out s
               @ (if is_dict (heap s ! params) then [] else [not_dict_warning (heap s ! params)])
               @ prompt_lines (take (Suc (length (console_in s))) asked),
            console_in := drop (length asked) (console_in s),
            conversation_history := conversation_history s @ prompt_turns answered,
            heap := heap s @ [PDict (fill_params given answered)]\<rparr>))"
proof -
  define d0 where "d0 = items_of (heap s ! params)"
  define s1 where "s1 = (if is_dict (heap s ! params) then s\<lparr>heap := heap s @ [PDict d0]\<rparr>
      else s\<lparr>console_out := console_out s @ [not_dict_warning (heap s ! params)],
             heap := heap s @ [PDict d0]\<rparr>)"
  have run: "validate_and_complete_params intent params s =
           bindM (complete_missing (get_required_params intent) (length (heap s)))
             (\<lambda>_. returnM (length (heap s))) s1"
  proof (cases "is_dict (heap s ! params)")
    case True
    then have "heap s ! params = PDict d0" unfolding d0_def by (rule is_dict_items)
    then show ?thesis using True by (simp add: validate_dict s1_def)
  next
    case False
    then show ?thesis by (simp add: validate_not_dict s1_def d0_def not_dict_items)
  qed
  have hu: "heap s1 ! length (heap s) = PDict d0" and u: "length (heap s) < length (heap s1)"
    by (simp_all add: s1_def)
  show ?thesis
    unfolding run bindM_def returnM_def
      complete_missing_run [OF hu u required_params_distinct required_params_plain]
    by (simp add: s1_def d0_def Let_def)
qed

text \<open>
  C3. When the dictionary passed holds a true value for every required parameter
  of the intent, \<open>validate_and_complete_params\<close> prints nothing, reads nothing,
  appends nothing to the conversation history, and returns a new dictionary equal
  to the one passed; applied to its own result it does the same again.
\<close>

theorem validate_idempotent:
  assumes "heap s ! params = PDict d"
      and "\<forall>k\<in>fst ` set (get_required_params intent). \<exists>v. map_of d k = Some v \<and> truthy v"
  shows "validate_and_complete_params intent params s
           = (Inr (length (heap s)), s\<lparr>heap := heap s @ [PDict d]\<rparr>)
       \<and> validate_and_complete_params intent (length (heap s)) (s\<lparr>heap := heap s @ [PDict d]\<rparr>)
           = (Inr (Suc (length (heap s))), s\<lparr>heap := heap s @ [PDict d, PDict d]\<rparr>)"
proof -
  have present: "\<forall>k\<in>fst ` set (get_required_params intent). \<not> param_missing d k"
    using assms(2) by (auto simp add: param_missing_def dict_get_def)
  have once: "validate_and_complete_params intent p t = (Inr (length (heap t)), t\<lparr>heap := heap t @ [PDict d]\<rparr>)"
    if "heap t ! p = PDict d" for p t
  proof -
    have "complete_missing (get_required_params intent) (length (heap t)) (t\<lparr>heap := heap t @ [PDict d]\<rparr>)
            = (Inr (), t\<lparr>heap := heap t @ [PDict d]\<rparr>)"
      using present by (intro complete_missing_noop) (simp add: items_of_def)
    then show ?thesis using that by (simp add: validate_dict bindM_def returnM_def)
  qed
  have "validate_and_complete_params intent (length (heap s)) (s\<lparr>heap := heap s @ [PDict d]\<rparr>)
          = (Inr (length (heap (s\<lparr>heap := heap s @ [PDict d]\<rparr>))),
             s\<lparr>heap := heap s @ [PDict d]\<rparr>\<lparr>heap := heap (s\<lparr>heap := heap s @ [PDict d]\<rparr>) @ [PDict d]\<rparr>)"
    by (rule once) simp
  then show ?thesis using once [OF assms(1)] by simp
qed

theorem validate_idempotent_witness:
  "validate_and_complete_params ''list_user_repositories'' 0 session_octocat
     = (Inr 1, session_octocat\<lparr>heap := [PDict [(''username'', PStr ''octocat'')],
                                          PDict [(''username'', PStr ''octocat'')]]\<rparr>)
   \<and> validate_and_complete_params ''list_user_repositories'' 1
        (session_octocat\<lparr>heap := [PDict [(''username'', PStr ''octocat'')],
                                   PDict [(''username'', PStr ''octocat'')]]\<rparr>)
     = (Inr 2, session_octocat\<lparr>heap := [PDict [(''username'', PStr ''octocat'')],
                                          PDict [(''username'', PStr ''octocat'')],
                                          PDict [(''username'', PStr ''octocat'')]]\<rparr>)"
  using validate_idempotent [of session_octocat 0 "[(''username'', PStr ''octocat'')]"
                                "''list_user_repositories''"]
  by (simp add: session_octocat_def session0_def get_required_params_def intent_params_def)

text \<open>
  C7. \<open>validate_and_complete_params\<close> asks for the required parameters of the
  intent that the dictionary passed lacks or holds a false value for, in the order
  of the table, and for no others; an argument that is no dictionary counts as the
  empty dictionary, and the warning is printed. It returns when there is a line of
  input for each parameter it asks for, and raises \<open>EOFError\<close> at the first
  prompt without one. The dictionary it returns is a new object: the dictionary
  passed with, for each parameter asked for, the line the user typed at its prompt
  (which may be empty; each prompt is made once), and every other entry as it was.
  So it holds every required parameter. Each prompt is printed after its
  announcement and recorded as two turns of the conversation.
\<close>

theorem validate_postcondition:
  "(let given = items_of (heap s ! params);
        asked = missing_params given (get_required_params intent);
        answered = zip asked (console_in s);
        result = fill_params given answered
    in validate_and_complete_params intent params s =
         (if length asked \<le> length (console_in s) then Inr (length (heap s))
          else Inl (PyExc ''EOFError'' ''EOF when reading a line''),
          s\<lparr>console_out := console_out s
               @ (if is_dict (heap s ! params) then [] else [not_dict_warning (heap s ! params)])
               @ prompt_lines (take (Suc (length (console_in s))) asked),
            console_in := drop (length asked) (console_in s),
            conversation_history := conversation_history s @ prompt_turns answered,
            heap := heap s @ [PDict result]\<rparr>)
       \<and> (\<forall>i<length answered. map_of result (fst (asked ! i)) = Some (PStr (console_in s ! i)))
       \<and> (\<forall>k. k \<notin> fst ` set asked \<longrightarrow> map_of result k = map_of given k)
       \<and> (\<forall>k\<in>fst ` set (get_required_params intent).
             k \<in> fst ` set asked \<or> (\<exists>v. map_of given k = Some v \<and> truthy v))
       \<and> (length asked \<le> length (console_in s)
            \<longrightarrow> (\<forall>k\<in>fst ` set (get_required_params intent). map_of result k \<noteq> None))
       \<and> (\<not> is_dict (heap s ! params) \<longrightarrow> given = [] \<and> asked = get_required_params intent))"
proof -
  define given where "given = items_of (heap s ! params)"
  define asked where "asked = missing_params given (get_required_params intent)"
  define answered where "answered = zip asked (console_in s)"
  define result where "result = fill_params given answered"
  have sub: "set asked \<subseteq> set (get_required_params intent)"
    by (auto simp add: asked_def missing_params_def)
  have dist: "distinct (map fst asked)"
    unfolding asked_def missing_params_def
    by (rule distinct_map_filter) (rule required_params_distinct)
  have nth: "map_of result (fst (asked ! i)) = Some (PStr (console_in s ! i))"
    if "i < length answered" for i
    using that fill_params_nth [OF dist, of i "console_in s" given]
    by (simp add: result_def answered_def)
  have other: "map_of result k = map_of given k" if "k \<notin> fst ` set asked" for k
    using that fill_params_other [of k asked given "console_in s"]
    by (simp add: result_def answered_def)
  have kept: "k \<in> fst ` set asked \<or> (\<exists>v. map_of given k = Some v \<and> truthy v)"
    if "k \<in> fst ` set (get_required_params intent)" for k
  proof (cases "param_missing given k")
    case True
    then show ?thesis using that by (force simp add: asked_def missing_params_def)
  next
    case False
    then show ?thesis by (auto simp add: param_missing_def dict_get_def)
  qed
  have present: "map_of result k \<noteq> None"
    if all: "length asked \<le> length (console_in s)"
      and k: "k \<in> fst ` set (get_required_params intent)" for k
  proof (cases "k \<in> fst ` set asked")
    case True
    then obtain i where i: "i < length asked" and ki: "k = fst (asked ! i)"
      by (auto simp add: in_set_conv_nth)
    then have "i < length answered" using all by (simp add: answered_def)
    from nth [OF this] show ?thesis using ki by simp
  next
    case False
    then show ?thesis using kept [OF k] other [OF False] by auto
  qed
  have empty: "given = [] \<and> asked = get_required_params intent" if "\<not> is_dict (heap s ! params)"
    using that
    by (simp add: given_def asked_def not_dict_items missing_params_def param_missing_def)
  have run: "validate_and_complete_params intent params s =
         (if length asked \<le> length (console_in s) then Inr (length (heap s))
          else Inl (PyExc ''EOFError'' ''EOF when reading a line''),
          s\<lparr>console_out := console_out s
               @ (if is_dict (heap s ! params) then [] else [not_dict_warning (heap s ! params)])
               @ prompt_lines (take (Suc (length (console_in s))) asked),
            console_in := drop (length asked) (console_in s),
            conversation_history := conversation_history s @ prompt_turns answered,
            heap := heap s @ [PDict result]\<rparr>)"
    by (simp add: validate_run Let_def given_def asked_def answered_def result_def)
  show ?thesis
    using run nth other kept present empty
    unfolding Let_def given_def [symmetric] asked_def [symmetric] answered_def [symmetric]
      result_def [symmetric]
    by blast
qed

theorem validate_postcondition_witness:
  "validate_and_complete_params ''list_user_repositories'' 0 session_list_params
     = (Inr 1,
        session_list_params\<lparr>console_out := [not_dict_warning (PList []),
               ''[bold yellow]Missing required parameter:[/bold yellow] GitHub username'',
               ''Please provide the username (GitHub username): ''],
             console_in := [],
             conversation_history := [PDict [(''role'', PStr ''assistant''),
                 (''content'', PStr ''Could you please provide the username (GitHub username)?'')],
               PDict [(''role'', PStr ''user''), (''content'', PStr '''')]],
             heap := [PList [], PDict [(''username'', PStr '''')]]\<rparr>)
   \<and> validate_and_complete_params ''get_contributors'' 0 session_owner_only
     = (Inl (PyExc ''EOFError'' ''EOF when reading a line''),
        session_owner_only\<lparr>console_out :=
              [''[bold yellow]Missing required parameter:[/bold yellow] repository name'',
               ''Please provide the repo (repository name): ''],
             console_in := [],
             conversation_history := [],
             heap := [PDict [(''owner'', PStr ''torvalds''), (''repo'', PStr '''')],
                      PDict [(''owner'', PStr ''torvalds''), (''repo'', PStr '''')]]\<rparr>)"
  using validate_postcondition [of session_list_params 0 "''list_user_repositories''"]
    validate_postcondition [of session_owner_only 0 "''get_contributors''"]
  by (simp add: get_required_params_def intent_params_def owner_repo_params_def
      session_list_params_def session_owner_only_def session0_def missing_params_def
      param_missing_def items_of_def dict_get_def dict_set_def Let_def)

text \<open>
  C10. \<open>validate_and_complete_params\<close> leaves the object passed as \<open>params\<close> as
  it was, and every other object that existed before the call: what it returns is
  a new object, and the loop writes into that one only.
\<close>

theorem validate_keeps_argument:
  assumes "validate_and_complete_params intent params s = (r, s')" and "params < length (heap s)"
  shows "heap s' ! params = heap s ! params \<and> take (length (heap s)) (heap s') = heap s
         \<and> r \<noteq> Inr params"
proof -
  define s1 where "s1 = (if is_dict (heap s ! params)
      then s\<lparr>heap := heap s @ [PDict (items_of (heap s ! params))]\<rparr>
      else s\<lparr>console_out := console_out s @ [not_dict_warning (heap s ! params)],
             heap := heap s @ [PDict []]\<rparr>)"
  have run: "validate_and_complete_params intent params s =
           bindM (complete_missing (get_required_params intent) (length (heap s)))
             (\<lambda>_. returnM (length (heap s))) s1"
    by (simp add: validate_and_complete_params_def effect_ops s1_def not_dict_warning_markup)
  obtain r1 s2 where loop: "complete_missing (get_required_params intent) (length (heap s)) s1 = (r1, s2)"
    by (cases "complete_missing (get_required_params intent) (length (heap s)) s1")
  have s2: "s' = s2" and r: "r = (case r1 of Inl e \<Rightarrow> Inl e | Inr x \<Rightarrow> Inr (length (heap s)))"
    using assms(1) run loop by (auto simp add: bindM_def returnM_def split: sum.splits)
  have frame: "length (heap s2) = length (heap s1)"
      "\<And>a. a \<noteq> length (heap s) \<Longrightarrow> heap s2 ! a = heap s1 ! a"
    using complete_missing_frame [OF loop] by auto
  have len1: "length (heap s1) = Suc (length (heap s))" by (simp add: s1_def)
  have old: "heap s1 ! a = heap s ! a" if "a < length (heap s)" for a
    using that by (simp add: s1_def nth_append)
  have same: "heap s' ! a = heap s ! a" if "a < length (heap s)" for a
    using that frame(2) [of a] old [of a] s2 by simp
  have "take (length (heap s)) (heap s') = heap s"
    by (rule nth_equalityI) (use frame(1) len1 s2 same in auto)
  moreover have "r \<noteq> Inr params" using r assms(2) by (auto split: sum.splits)
  ultimately show ?thesis using same [OF assms(2)] by simp
qed

theorem validate_keeps_argument_witness:
  "\<exists>s'. validate_and_complete_params ''get_contributors'' 0 session_empty_params = (Inr 1, s')
      \<and> heap s' = [PDict [], PDict [(''owner'', PStr ''torvalds''), (''repo'', PStr ''linux'')]]
      \<and> heap s' ! 0 = heap session_empty_params ! 0"
proof -
  have run: "validate_and_complete_params ''get_contributors'' 0 session_empty_params
        = (Inr 1, session_empty_params\<lparr>console_out :=
              [''[bold yellow]Missing required parameter:[/bold yellow] repository owner/organization'',
               ''Please provide the owner (repository owner/organization): '',
               ''[bold yellow]Missing required parameter:[/bold yellow] repository name'',
               ''Please provide the repo (repository name): ''],
             console_in := [],
             heap := [PDict [], PDict [(''owner'', PStr ''torvalds''), (''repo'', PStr ''linux'')]],
             conversation_history := [PDict [(''role'', PStr ''assistant''),
                 (''content'', PStr ''Could you please provide the owner (repository owner/organization)?'')],
               PDict [(''role'', PStr ''user''), (''content'', PStr ''torvalds'')],
               PDict [(''role'', PStr ''assistant''),
                 (''content'', PStr ''Could you please provide the repo (repository name)?'')],
               PDict [(''role'', PStr ''user''), (''content'', PStr ''linux'')]]\<rparr>)"
    by (simp add: validate_run get_required_params_def intent_params_def owner_repo_params_def
        session_empty_params_def session0_def missing_params_def param_missing_def items_of_def
        dict_set_def)
  have "0 < length (heap session_empty_params)"
    by (simp add: session_empty_params_def session0_def)
  from validate_keeps_argument [OF run this] run show ?thesis by simp
qed

section \<open>Properties of the GitHub client\<close>



lemma merged_loop_result:
  assumes "merged_loop W owner repo items acc s = (Inr res, s')"
  shows "\<exists>new. res = acc @ new
           \<and> list_all2 (is_detail_of W owner repo) new (filter is_merged items)"
  using assms
proof (induction items arbitrary: acc s)
  case Nil
  then show ?case by simp
next
  case (Cons pr items)
  show ?case
  proof (cases "py_get pr ''merged_at'' PNone")
    case (Inl e)
    then show ?thesis using Cons.prems by (simp add: bindM_def liftE_def)
  next
    case (Inr m)
    show ?thesis
    proof (cases "truthy m")
      case False
      then have "merged_loop W owner repo items acc s = (Inr res, s')"
        using Inr Cons.prems by (simp add: bindM_def liftE_def)
      from Cons.IH [OF this] show ?thesis using Inr False by (simp add: is_merged_def)
    next
      case True
      show ?thesis
      proof (cases "py_getitem pr ''number''")
        case (Inl e)
        then show ?thesis using Inr True Cons.prems by (simp add: bindM_def liftE_def)
      next
        case number: (Inr n)
        show ?thesis
        proof (cases "http_get W (pull_endpoint owner repo n) None")
          case (Inl e)
          then show ?thesis using Inr True number Cons.prems
            by (simp add: bindM_def liftE_def GitHubAPIClient_get_def)
        next
          case details: (Inr pr_details)
          have "merged_loop W owner repo items (acc @ [pr_details])
                  (s\<lparr>net_log := net_log s @ [(pull_endpoint owner repo n, None)]\<rparr>) = (Inr res, s')"
            using Inr True number details Cons.prems
            by (simp add: bindM_def liftE_def GitHubAPIClient_get_def)
          from Cons.IH [OF this] obtain new where new: "res = (acc @ [pr_details]) @ new"
            "list_all2 (is_detail_of W owner repo) new (filter is_merged items)"
            by blast
          have "res = acc @ (pr_details # new)" using new(1) by simp
          moreover have "list_all2 (is_detail_of W owner repo) (pr_details # new)
                           (filter is_merged (pr # items))"
            using new(2) Inr True number details by (simp add: is_merged_def is_detail_of_def)
          ultimately show ?thesis by blast
        qed
      qed
    qed
  qed
qed

lemma details_of_merged:
  assumes "list_all2 (is_detail_of W owner repo) res (filter is_merged items)"
      and "d \<in> set res"
  shows "\<exists>pr\<in>set items. \<exists>m n. py_get pr ''merged_at'' PNone = Inr m \<and> truthy m
           \<and> py_getitem pr ''number'' = Inr n
           \<and> http_get W (pull_endpoint owner repo n) None = Inr d"
proof -
  obtain i where i: "i < length res" "res ! i = d"
    using assms(2) by (auto simp add: in_set_conv_nth)
  define pr where "pr = filter is_merged items ! i"
  have "length res = length (filter is_merged items)"
    using assms(1) by (rule list_all2_lengthD)
  then have "pr \<in> set (filter is_merged items)"
    using i(1) unfolding pr_def by (intro nth_mem) simp
  moreover have "is_detail_of W owner repo d pr"
    using list_all2_nthD [OF assms(1) i(1)] i(2) by (simp add: pr_def)
  ultimately have pr: "pr \<in> set (filter is_merged items)" "is_detail_of W owner repo d pr"
    by simp_all
  then have "pr \<in> set items" "is_merged pr" by simp_all
  moreover obtain m where "py_get pr ''merged_at'' PNone = Inr m" "truthy m"
    using \<open>is_merged pr\<close> by (auto simp add: is_merged_def split: sum.splits)
  moreover obtain n where "py_getitem pr ''number'' = Inr n"
      "http_get W (pull_endpoint owner repo n) None = Inr d"
    using pr(2) by (auto simp add: is_detail_of_def split: sum.splits)
  ultimately show ?thesis by blast
qed

lemma truthy_not_none: "truthy m \<Longrightarrow> m \<noteq> PNone"
  by auto

text \<open>
  C4, as amended. The records \<open>get_recent_merged_prs\<close> returns are the detail
  records of exactly the entries of the page whose \<open>merged_at\<close> is true, one for
  each and in the order of the page: closed pull requests that were never merged
  are left out, and the list is no longer than the page. The function looks
  neither at the detail records nor at the length of the page. So every record
  returned has a \<open>merged_at\<close> that is not \<open>None\<close> when the detail record the API
  returns for a pull request carries the same \<open>merged_at\<close> as the page's entry
  for it, and the list is no longer than the page size requested when the page
  is.
\<close>

theorem merged_prs_only_merged:
  assumes "get_recent_merged_prs W owner repo count s = (Inr res, s')"
      and "http_get W (pulls_endpoint owner repo)
             (Some [(''state'', PStr ''closed''), (''per_page'', PInt count)]) = Inr page"
      and "py_iter page = Inr items"
  shows "list_all2 (is_detail_of W owner repo) res (filter is_merged items)
         \<and> length res = length (filter is_merged items)
         \<and> length res \<le> length items
         \<and> (int (length items) \<le> count \<longrightarrow> int (length res) \<le> count)
         \<and> ((\<forall>pr\<in>set items. \<forall>n d. py_getitem pr ''number'' = Inr n
                \<and> http_get W (pull_endpoint owner repo n) None = Inr d
                \<longrightarrow> py_get d ''merged_at'' PNone = py_get pr ''merged_at'' PNone)
            \<longrightarrow> (\<forall>d\<in>set res. \<exists>m. py_get d ''merged_at'' PNone = Inr m \<and> truthy m \<and> m \<noteq> PNone))"
proof -
  have "merged_loop W owner repo items []
          (s\<lparr>net_log := net_log s @ [(pulls_endpoint owner repo,
              Some [(''state'', PStr ''closed''), (''per_page'', PInt count)])]\<rparr>) = (Inr res, s')"
    using assms
    by (simp add: get_recent_merged_prs_def bindM_def liftE_def GitHubAPIClient_get_def)
  from merged_loop_result [OF this]
  have exact: "list_all2 (is_detail_of W owner repo) res (filter is_merged items)"
    by auto
  then have same: "length res = length (filter is_merged items)"
    by (rule list_all2_lengthD)
  then have len: "length res \<le> length items"
    by simp
  then have size: "int (length items) \<le> count \<longrightarrow> int (length res) \<le> count"
    by simp
  have merged: "\<exists>m. py_get d ''merged_at'' PNone = Inr m \<and> truthy m \<and> m \<noteq> PNone"
    if consistent: "\<forall>pr\<in>set items. \<forall>n d. py_getitem pr ''number'' = Inr n
                \<and> http_get W (pull_endpoint owner repo n) None = Inr d
                \<longrightarrow> py_get d ''merged_at'' PNone = py_get pr ''merged_at'' PNone"
      and d: "d \<in> set res" for d
  proof -
    obtain pr m n where pr: "pr \<in> set items" "py_get pr ''merged_at'' PNone = Inr m" "truthy m"
        "py_getitem pr ''number'' = Inr n" "http_get W (pull_endpoint owner repo n) None = Inr d"
      using details_of_merged [OF exact d] by (elim bexE exE conjE)
    have "py_get d ''merged_at'' PNone = py_get pr ''merged_at'' PNone"
      using consistent pr(1,4,5) by blast
    then show ?thesis using pr(2,3) truthy_not_none by auto
  qed
  show ?thesis using exact same len size merged by blast
qed

lemma nat_str_digit: "n < 10 \<Longrightarrow> nat_str n = [digit_char n]"
  by (simp add: nat_str.simps)

lemma pull_endpoint_1: "pull_endpoint (PStr ''o'') (PStr ''r'') (PInt 1) = ''/repos/o/r/pulls/1''"
  by (simp add: pull_endpoint_def pulls_endpoint_def py_str_def int_str_def nat_str_digit digit_char_def)

lemma pull_endpoint_2: "pull_endpoint (PStr ''o'') (PStr ''r'') (PInt 2) = ''/repos/o/r/pulls/2''"
  by (simp add: pull_endpoint_def pulls_endpoint_def py_str_def int_str_def nat_str_digit digit_char_def)

theorem merged_prs_only_merged_witness:
  "get_recent_merged_prs (quiet_world pulls_http llm_down) (PStr ''o'') (PStr ''r'') 10 session0
     = (Inr [merged_pr_1_details],
        session0\<lparr>net_log := [(''/repos/o/r/pulls'',
                                Some [(''state'', PStr ''closed''), (''per_page'', PInt 10)]),
                               (''/repos/o/r/pulls/1'', None)]\<rparr>)
   \<and> filter is_merged [merged_pr_1, unmerged_pr_2] = [merged_pr_1]
   \<and> py_get merged_pr_1_details ''merged_at'' PNone = Inr (PStr ''2024-05-01T10:00:00Z'')
   \<and> length [merged_pr_1_details] \<le> length [merged_pr_1, unmerged_pr_2]
   \<and> int (length [merged_pr_1_details]) \<le> 10"
proof -
  let ?W = "quiet_world pulls_http llm_down"
  have page: "http_get ?W (pulls_endpoint (PStr ''o'') (PStr ''r''))
             (Some [(''state'', PStr ''closed''), (''per_page'', PInt 10)])
           = Inr (PList [merged_pr_1, unmerged_pr_2])"
    by (simp add: quiet_world_def pulls_http_def pulls_endpoint_def py_str_def)
  have items: "py_iter (PList [merged_pr_1, unmerged_pr_2]) = Inr [merged_pr_1, unmerged_pr_2]"
    by (simp add: py_iter_def)
  have loop: "merged_loop ?W (PStr ''o'') (PStr ''r'') [merged_pr_1, unmerged_pr_2] [] t
     = (Inr [merged_pr_1_details], t\<lparr>net_log := net_log t @ [(''/repos/o/r/pulls/1'', None)]\<rparr>)" for t
    by (simp add: bindM_def liftE_def GitHubAPIClient_get_def pull_endpoint_1
        merged_pr_1_def unmerged_pr_2_def py_get_def py_getitem_def dict_get_def
        quiet_world_def pulls_http_def)
  have run: "get_recent_merged_prs ?W (PStr ''o'') (PStr ''r'') 10 session0
     = (Inr [merged_pr_1_details],
        session0\<lparr>net_log := [(''/repos/o/r/pulls'',
                                Some [(''state'', PStr ''closed''), (''per_page'', PInt 10)]),
                               (''/repos/o/r/pulls/1'', None)]\<rparr>)"
    by (simp add: get_recent_merged_prs_def bindM_def liftE_def GitHubAPIClient_get_def
        page items loop del: merged_loop.simps)
      (simp add: pulls_endpoint_def py_str_def session0_def)
  have consistent: "\<forall>pr\<in>set [merged_pr_1, unmerged_pr_2]. \<forall>n d. py_getitem pr ''number'' = Inr n
             \<and> http_get ?W (pull_endpoint (PStr ''o'') (PStr ''r'') n) None = Inr d
             \<longrightarrow> py_get d ''merged_at'' PNone = py_get pr ''merged_at'' PNone"
    by (auto simp add: merged_pr_1_def unmerged_pr_2_def merged_pr_1_details_def py_getitem_def
        py_get_def dict_get_def pull_endpoint_1 pull_endpoint_2 quiet_world_def pulls_http_def)
  have kept: "filter is_merged [merged_pr_1, unmerged_pr_2] = [merged_pr_1]"
    by (simp add: is_merged_def merged_pr_1_def unmerged_pr_2_def py_get_def dict_get_def)
  from merged_prs_only_merged [OF run page items] consistent run kept
  show ?thesis by (simp add: merged_pr_1_details_def py_get_def dict_get_def)
qed

lemma pull_endpoint_3: "pull_endpoint (PStr ''o'') (PStr ''r'') (PInt 3) = ''/repos/o/r/pulls/3''"
  by (simp add: pull_endpoint_def pulls_endpoint_def py_str_def int_str_def nat_str_digit digit_char_def)

text \<open>
  C4 as stated fails for an API that answers a request for pages of one item with
  two entries, both merged, and whose detail records for them carry no merge
  timestamp: both detail records are returned, each with \<open>merged_at\<close> \<open>None\<close>,
  and the list is longer than the requested page size.
\<close>

theorem merged_prs_null_counterexample:
  "get_recent_merged_prs (quiet_world stale_http llm_down) (PStr ''o'') (PStr ''r'') 1 session0
     = (Inr [stale_details 1, stale_details 3],
        session0\<lparr>net_log := [(''/repos/o/r/pulls'',
                                Some [(''state'', PStr ''closed''), (''per_page'', PInt 1)]),
                               (''/repos/o/r/pulls/1'', None),
                               (''/repos/o/r/pulls/3'', None)]\<rparr>)
   \<and> py_get (stale_details 1) ''merged_at'' PNone = Inr PNone
   \<and> py_get (stale_details 3) ''merged_at'' PNone = Inr PNone
   \<and> (1 :: nat) < length [stale_details 1, stale_details 3]"
proof -
  let ?W = "quiet_world stale_http llm_down"
  have page: "http_get ?W (pulls_endpoint (PStr ''o'') (PStr ''r''))
             (Some [(''state'', PStr ''closed''), (''per_page'', PInt 1)])
           = Inr (PList [merged_pr_1, merged_pr_3])"
    by (simp add: quiet_world_def stale_http_def pulls_endpoint_def py_str_def)
  have items: "py_iter (PList [merged_pr_1, merged_pr_3]) = Inr [merged_pr_1, merged_pr_3]"
    by (simp add: py_iter_def)
  have loop: "merged_loop ?W (PStr ''o'') (PStr ''r'') [merged_pr_1, merged_pr_3] [] t
     = (Inr [stale_details 1, stale_details 3],
        t\<lparr>net_log := net_log t @ [(''/repos/o/r/pulls/1'', None), (''/repos/o/r/pulls/3'', None)]\<rparr>)"
    for t
    by (simp add: bindM_def liftE_def GitHubAPIClient_get_def pull_endpoint_1 pull_endpoint_3
        merged_pr_1_def merged_pr_3_def py_get_def py_getitem_def dict_get_def
        quiet_world_def stale_http_def)
  have run: "get_recent_merged_prs ?W (PStr ''o'') (PStr ''r'') 1 session0
     = (Inr [stale_details 1, stale_details 3],
        session0\<lparr>net_log := [(''/repos/o/r/pulls'',
                                Some [(''state'', PStr ''closed''), (''per_page'', PInt 1)]),
                               (''/repos/o/r/pulls/1'', None),
                               (''/repos/o/r/pulls/3'', None)]\<rparr>)"
    by (simp add: get_recent_merged_prs_def bindM_def liftE_def GitHubAPIClient_get_def
        page items loop del: merged_loop.simps)
      (simp add: pulls_endpoint_def py_str_def session0_def)
  show ?thesis using run by (simp add: stale_details_def py_get_def dict_get_def)
qed

section \<open>Properties of dispatch\<close>

lemma dict_get_dict_set:
  "dict_get (dict_set d k v) k' dflt = (if k' = k then v else dict_get d k' dflt)"
  by (simp add: dict_get_def map_of_dict_set)

lemma execute_intent_try_list:
  assumes "intent = PStr ''list_user_repositories'' \<or> intent = PStr ''get_user_repositories''"
  shows "execute_intent_try W d intent params =
           list_repositories_branch W GitHubAPIClient_get_user_repositories params"
  using assms unfolding execute_intent_try_def by (elim disjE) simp_all

lemma execute_intent_list_branch:
  assumes "dict_get d ''intent'' PNone \<in> set [PStr ''get_repositories'', PStr ''get_repos'',
             PStr ''get_user_repositories'', PStr ''list_user_repositories'']"
  shows "execute_intent W d =
           catchM (list_repositories_branch W GitHubAPIClient_get_user_repositories
                     (dict_get d ''parameters'' (PDict []))) execute_intent_except"
proof -
  have "canonical_intent (dict_get d ''intent'' PNone) = PStr ''list_user_repositories''
      \<or> canonical_intent (dict_get d ''intent'' PNone) = PStr ''get_user_repositories''"
    using assms by (auto simp add: canonical_intent_def)
  then show ?thesis
    by (simp add: execute_intent_def Let_def execute_intent_try_list)
qed

text \<open>
  C5. Dispatching a record whose intent is \<open>get_repositories\<close>, \<open>get_repos\<close> or
  \<open>get_user_repositories\<close> gives the same result, and leaves the same session, as
  dispatching the record with the intent \<open>list_user_repositories\<close> in its place.
\<close>

theorem alias_dispatch:
  assumes "a \<in> {''get_repositories'', ''get_repos'', ''get_user_repositories''}"
  shows "execute_intent W (dict_set d ''intent'' (PStr a)) s
           = execute_intent W (dict_set d ''intent'' (PStr ''list_user_repositories'')) s"
proof -
  have i: "dict_get (dict_set d ''intent'' (PStr b)) ''intent'' PNone = PStr b" for b
    by (simp add: dict_get_dict_set)
  have p: "dict_get (dict_set d ''intent'' (PStr b)) ''parameters'' (PDict [])
             = dict_get d ''parameters'' (PDict [])" for b
    by (simp add: dict_get_dict_set)
  have branch: "execute_intent W (dict_set d ''intent'' (PStr b)) =
           catchM (list_repositories_branch W GitHubAPIClient_get_user_repositories
                     (dict_get d ''parameters'' (PDict []))) execute_intent_except"
    if "PStr b \<in> set [PStr ''get_repositories'', PStr ''get_repos'',
             PStr ''get_user_repositories'', PStr ''list_user_repositories'']" for b
    using execute_intent_list_branch [of "dict_set d ''intent'' (PStr b)" W] that
    unfolding i p by blast
  have "PStr a \<in> set [PStr ''get_repositories'', PStr ''get_repos'',
             PStr ''get_user_repositories'', PStr ''list_user_repositories'']"
    using assms by auto
  then have "execute_intent W (dict_set d ''intent'' (PStr a)) =
           catchM (list_repositories_branch W GitHubAPIClient_get_user_repositories
                     (dict_get d ''parameters'' (PDict []))) execute_intent_except"
    by (rule branch)
  moreover have "execute_intent W (dict_set d ''intent'' (PStr ''list_user_repositories'')) =
           catchM (list_repositories_branch W GitHubAPIClient_get_user_repositories
                     (dict_get d ''parameters'' (PDict []))) execute_intent_except"
    by (rule branch) simp
  ultimately show ?thesis by simp
qed


theorem alias_dispatch_witness:
  "execute_intent (quiet_world http_down llm_down)
     [(''intent'', PStr ''get_repos''), (''parameters'', PDict [(''username'', PStr ''octocat'')])]
     session0
   = execute_intent (quiet_world http_down llm_down)
     [(''intent'', PStr ''list_user_repositories''),
      (''parameters'', PDict [(''username'', PStr ''octocat'')])]
     session0"
proof -
  have a: "''get_repos'' \<in> {''get_repositories'', ''get_repos'', ''get_user_repositories''}"
    by simp
  have d: "dict_set [(''intent'', PStr ''get_repos''),
                     (''parameters'', PDict [(''username'', PStr ''octocat'')])] ''intent'' v
           = [(''intent'', v), (''parameters'', PDict [(''username'', PStr ''octocat'')])]" for v
    by (simp add: dict_set_def)
  show ?thesis
    using alias_dispatch [OF a, of "quiet_world http_down llm_down"
      "[(''intent'', PStr ''get_repos''), (''parameters'', PDict [(''username'', PStr ''octocat'')])]"
      session0]
    unfolding d .
qed

text \<open>
  C8. The specification says a user without repositories gets the envelope with an empty
  \<open>repositories\<close> list and a message. The dispatch of \<open>list_user_repositories\<close>
  for the user \<open>octocat\<close> never reaches the data source: the client has no method
  \<open>get_user_repositories\<close>, the lookup raises, and the result is an error
  envelope. (The two short-circuits the specification describes hold, see \<open>execute_unknown\<close> and
  \<open>execute_no_username\<close> below; \<open>execute_list_with_username\<close> shows the error
  envelope for every true username without a bracket, and
  \<open>empty_repository_list_envelope\<close> what the branch would return if the call
  returned an empty list.)
\<close>

theorem list_repositories_attribute_error:
  "execute_intent W
     [(''intent'', PStr ''list_user_repositories''),
      (''parameters'', PDict [(''username'', PStr ''octocat'')])] s
   = (Inr (PDict [(''error'', PStr (sq @ ''GitHubAPIClient'' @ sq @ '' object has no attribute ''
                                     @ sq @ ''get_user_repositories'' @ sq))]),
      s\<lparr>console_out := console_out s
           @ [''[blue]Fetching repositories for user: octocat[/blue]'',
              ''[bold red]Error fetching repositories:[/bold red] ''
              @ sq @ ''GitHubAPIClient'' @ sq @ '' object has no attribute ''
              @ sq @ ''get_user_repositories'' @ sq]\<rparr>)"
proof -
  have "execute_intent W
     [(''intent'', PStr ''list_user_repositories''),
      (''parameters'', PDict [(''username'', PStr ''octocat'')])]
    = catchM (list_repositories_branch W GitHubAPIClient_get_user_repositories
                     (PDict [(''username'', PStr ''octocat'')])) execute_intent_except"
    by (subst execute_intent_list_branch) (simp_all add: dict_get_def)
  moreover have "markup_error (console s) ''[blue]Fetching repositories for user: octocat[/blue]''
      = None"
    by (simp add: markup_ops)
  moreover have "markup_error (console s)
      (''[bold red]Error fetching repositories:[/bold red] ''
       @ sq @ ''GitHubAPIClient'' @ sq @ '' object has no attribute ''
       @ sq @ ''get_user_repositories'' @ sq) = None"
    by (simp add: markup_ops sq_def)
  ultimately show ?thesis
    by (simp add: list_repositories_branch_def GitHubAPIClient_get_user_repositories_def
      dict_get_def py_get_def py_str_def action_ops)
qed


lemma execute_intent_try_unknown:
  "execute_intent_try W d (PStr ''unknown'') params =
     bindM (console_print (''[bold yellow]Could not determine specific intent. ''
                              @ ''Please try rephrasing your query.[/bold yellow]'')) (\<lambda>_.
          returnM (PDict [(''error'', PStr ''Unknown intent''),
                          (''query'', dict_get d ''query'' (PStr []))]))"
  unfolding execute_intent_try_def by simp

lemma execute_unknown:
  assumes "dict_get d ''intent'' PNone = PStr ''unknown''"
  shows "execute_intent W d s =
     (Inr (PDict [(''error'', PStr ''Unknown intent''), (''query'', dict_get d ''query'' (PStr []))]),
      s\<lparr>console_out := console_out s
           @ [''[bold yellow]Could not determine specific intent. ''
              @ ''Please try rephrasing your query.[/bold yellow]'']\<rparr>)"
proof -
  have "canonical_intent (dict_get d ''intent'' PNone) = PStr ''unknown''"
    using assms by (simp add: canonical_intent_def)
  then show ?thesis
    by (simp add: execute_intent_def Let_def execute_intent_try_unknown action_ops
        unknown_message_markup [simplified])
qed

lemma execute_no_username:
  assumes "dict_get d ''intent'' PNone \<in> set [PStr ''get_repositories'', PStr ''get_repos'',
             PStr ''get_user_repositories'', PStr ''list_user_repositories'']"
      and "dict_get d ''parameters'' (PDict []) = PDict p"
      and "\<not> truthy (dict_get p ''username'' PNone)"
  shows "execute_intent W d s =
     (Inr (PDict [(''error'', PStr ''No username provided'')]),
      s\<lparr>console_out := console_out s
           @ [''[bold red]Error: No username provided for repository listing[/bold red]'']\<rparr>)"
  using assms(2,3)
  by (simp add: execute_intent_list_branch [OF assms(1)] list_repositories_branch_def
      py_get_def action_ops fixed_messages)

lemma fetching_text_markup:
  assumes "CHR 0x5B \<notin> set x"
  shows "markup_error C (''[blue]Fetching repositories for user: '' @ x @ ''[/blue]'') = None"
proof -
  obtain p where "markup_error C (''[blue]Fetching repositories for user: '' @ x @ ''[/blue]'')
      = scan_markup C p 0 0 [(style_normalize C ''blue'', None)] (x @ ''[/blue]'')"
    by (simp add: markup_ops)
  moreover obtain e' where "scan_markup C p 0 0 [(style_normalize C ''blue'', None)] (x @ ''[/blue]'')
      = scan_markup C (p + length x) 0 e' [(style_normalize C ''blue'', None)] ''[/blue]''"
    using scan_plain [OF assms] by blast
  moreover have "scan_markup C (p + length x) 0 e' [(style_normalize C ''blue'', None)] ''[/blue]''
      = None"
    by (simp add: markup_ops)
  ultimately show ?thesis by simp
qed

lemma no_repositories_text_markup:
  assumes "CHR 0x5B \<notin> set x"
  shows "markup_error C (''[yellow]No repositories found for user: '' @ x @ ''[/yellow]'') = None"
proof -
  obtain p where "markup_error C (''[yellow]No repositories found for user: '' @ x @ ''[/yellow]'')
      = scan_markup C p 0 0 [(style_normalize C ''yellow'', None)] (x @ ''[/yellow]'')"
    by (simp add: markup_ops)
  moreover obtain e' where "scan_markup C p 0 0 [(style_normalize C ''yellow'', None)] (x @ ''[/yellow]'')
      = scan_markup C (p + length x) 0 e' [(style_normalize C ''yellow'', None)] ''[/yellow]''"
    using scan_plain [OF assms] by blast
  moreover have "scan_markup C (p + length x) 0 e' [(style_normalize C ''yellow'', None)] ''[/yellow]''
      = None"
    by (simp add: markup_ops)
  ultimately show ?thesis by simp
qed

lemma attribute_error_markup:
  "markup_error C (''[bold red]Error fetching repositories:[/bold red] ''
       @ sq @ ''GitHubAPIClient'' @ sq @ '' object has no attribute ''
       @ sq @ ''get_user_repositories'' @ sq) = None"
  by (simp add: markup_ops sq_def)

lemma execute_list_with_username:
  assumes "dict_get d ''intent'' PNone \<in> set [PStr ''get_repositories'', PStr ''get_repos'',
             PStr ''get_user_repositories'', PStr ''list_user_repositories'']"
      and "dict_get d ''parameters'' (PDict []) = PDict p"
      and "truthy (dict_get p ''username'' PNone)"
      and "CHR 0x5B \<notin> set (py_str (dict_get p ''username'' PNone))"
  shows "execute_intent W d s =
     (Inr (PDict [(''error'', PStr (sq @ ''GitHubAPIClient'' @ sq @ '' object has no attribute ''
                                     @ sq @ ''get_user_repositories'' @ sq))]),
      s\<lparr>console_out := console_out s
           @ [''[blue]Fetching repositories for user: '' @ py_str (dict_get p ''username'' PNone)
              @ ''[/blue]'',
              ''[bold red]Error fetching repositories:[/bold red] ''
              @ sq @ ''GitHubAPIClient'' @ sq @ '' object has no attribute ''
              @ sq @ ''get_user_repositories'' @ sq]\<rparr>)"
  using assms(2,3) fetching_text_markup [OF assms(4), of "console s"]
    attribute_error_markup [of "console s"]
  by (simp add: execute_intent_list_branch [OF assms(1)] list_repositories_branch_def
      GitHubAPIClient_get_user_repositories_def py_get_def action_ops)

lemma empty_repository_list_envelope:
  assumes "truthy username" and "CHR 0x5B \<notin> set (py_str username)"
  shows "list_repositories_branch W (\<lambda>u. returnM (PList [])) (PDict [(''username'', username)]) s =
        (Inr (PDict [(''repositories'', PList []),
                     (''message'', PStr (''No repositories found for '' @ py_str username))]),
         s\<lparr>console_out := console_out s
           @ [''[blue]Fetching repositories for user: '' @ py_str username @ ''[/blue]'',
              ''[yellow]No repositories found for user: '' @ py_str username @ ''[/yellow]'']\<rparr>)"
  using assms(1) fetching_text_markup [OF assms(2), of "console s"]
    no_repositories_text_markup [OF assms(2), of "console s"]
  by (simp add: list_repositories_branch_def repositories_envelope_def py_get_def dict_get_def
      action_ops)

section \<open>Conversion of the count\<close>

















lemma py_int_str_error: "py_int (PStr t) = Inl x \<Longrightarrow> exc_class x = ''ValueError''"
  by (auto simp add: int_of_str_def Let_def invalid_literal_def split: if_splits)

lemma py_int_error_class:
  "py_int v = Inl x \<Longrightarrow> exc_class x = ''ValueError'' \<or> exc_class x = ''TypeError''"
  using py_int_str_error by (cases v) auto

section \<open>Dispatch of the intents with a count\<close>






















end
